theory Spec2Isabelle
  imports Complex_Main
begin

section \<open>JavaScript numbers\<close>

text \<open>
  Every quantity of the calculation engine is a JavaScript \<^verbatim>\<open>number\<close>. The model keeps the
  three special values the code can produce by dividing by zero (\<open>NaN\<close> and the two
  infinities) and idealises the finite ones: a finite number is a real, arithmetic on finite
  numbers is exact (no binary64 rounding, no overflow to an infinity), and there is one zero
  (the sign of a zero only decides the sign of an infinity obtained by dividing by it).
  The operators below follow the ECMAScript tables for \<^verbatim>\<open>+ - * /\<close>, \<^verbatim>\<open><\<close>,
  \<^verbatim>\<open>Math.round\<close>, \<^verbatim>\<open>Math.pow\<close> and for truthiness (\<^verbatim>\<open>x || d\<close>, \<^verbatim>\<open>if (x)\<close>).

  Where the idealisation departs from binary64:
  \<^item> overflow: \<^verbatim>\<open>Math.pow(1 + monthlyRate, 360)\<close> is \<open>Infinity\<close> in the code once the
    annual rate is about 7419 per cent or more, and the annuity factor is then
    \<open>Infinity / Infinity = NaN\<close>; the model keeps a finite power;
  \<^item> underflow: for an annual rate of about \<open>3e-321\<close> or less the monthly rate is 0 in the
    code, and the factor is \<open>0 / 0 = NaN\<close>; the model keeps a positive monthly rate;
  \<^item> rounding: a product such as \<open>1375 * 0.7\<close> is \<open>962.4999999999999\<close> in the code and
    \<open>962.5\<close> in the model, so a \<^verbatim>\<open>Math.round\<close> at an exact tie can differ by one.
  A general statement about the engine that depends on the size of the growth factor is
  therefore made for annual rates between \<open>1 / 10 ^ 6\<close> and 1200 per cent only, where the monthly
  rate is at least \<open>1 / 2 ^ 31\<close> and the growth factor lies between 1 and \<open>2 ^ 360\<close>
  (lemma \<open>growth_in_range\<close>): there the code neither overflows nor underflows, and
  every operation it performs is monotone. The closed evaluations keep a margin far larger
  than any rounding effect.
\<close>

datatype jsnum = Num real | PosInf | NegInf | NaN

fun jneg :: "jsnum \<Rightarrow> jsnum" where
  "jneg (Num a) = Num (- a)"
| "jneg PosInf = NegInf"
| "jneg NegInf = PosInf"
| "jneg NaN = NaN"

fun jadd :: "jsnum \<Rightarrow> jsnum \<Rightarrow> jsnum" where
  "jadd NaN y = NaN"
| "jadd x NaN = NaN"
| "jadd (Num a) (Num b) = Num (a + b)"
| "jadd PosInf NegInf = NaN"
| "jadd NegInf PosInf = NaN"
| "jadd PosInf y = PosInf"
| "jadd x PosInf = PosInf"
| "jadd NegInf y = NegInf"
| "jadd x NegInf = NegInf"

definition jsub :: "jsnum \<Rightarrow> jsnum \<Rightarrow> jsnum" where
  "jsub x y = jadd x (jneg y)"

fun jmul :: "jsnum \<Rightarrow> jsnum \<Rightarrow> jsnum" where
  "jmul NaN y = NaN"
| "jmul x NaN = NaN"
| "jmul (Num a) (Num b) = Num (a * b)"
| "jmul (Num a) PosInf = (if a = 0 then NaN else if 0 < a then PosInf else NegInf)"
| "jmul (Num a) NegInf = (if a = 0 then NaN else if 0 < a then NegInf else PosInf)"
| "jmul PosInf (Num b) = (if b = 0 then NaN else if 0 < b then PosInf else NegInf)"
| "jmul NegInf (Num b) = (if b = 0 then NaN else if 0 < b then NegInf else PosInf)"
| "jmul PosInf PosInf = PosInf"
| "jmul PosInf NegInf = NegInf"
| "jmul NegInf PosInf = NegInf"
| "jmul NegInf NegInf = PosInf"

fun jdiv :: "jsnum \<Rightarrow> jsnum \<Rightarrow> jsnum" where
  "jdiv NaN y = NaN"
| "jdiv x NaN = NaN"
| "jdiv (Num a) (Num b) =
     (if b = 0 then (if a = 0 then NaN else if 0 < a then PosInf else NegInf)
      else Num (a / b))"
| "jdiv (Num a) PosInf = Num 0"
| "jdiv (Num a) NegInf = Num 0"
| "jdiv PosInf (Num b) = (if 0 \<le> b then PosInf else NegInf)"
| "jdiv NegInf (Num b) = (if 0 \<le> b then NegInf else PosInf)"
| "jdiv PosInf PosInf = NaN"
| "jdiv PosInf NegInf = NaN"
| "jdiv NegInf PosInf = NaN"
| "jdiv NegInf NegInf = NaN"

text \<open>\<^verbatim>\<open>Math.round\<close>: the nearest integer, a tie going up; the special values are returned
  as they are.\<close>

fun jround :: "jsnum \<Rightarrow> jsnum" where
  "jround (Num a) = Num (of_int \<lfloor>a + 1 / 2\<rfloor>)"
| "jround PosInf = PosInf"
| "jround NegInf = NegInf"
| "jround NaN = NaN"

text \<open>The comparison \<^verbatim>\<open>x < y\<close>: false as soon as one side is \<open>NaN\<close>.\<close>

fun jlt :: "jsnum \<Rightarrow> jsnum \<Rightarrow> bool" where
  "jlt NaN y = False"
| "jlt x NaN = False"
| "jlt (Num a) (Num b) = (a < b)"
| "jlt x NegInf = False"
| "jlt PosInf y = False"
| "jlt NegInf y = True"
| "jlt x PosInf = True"

text \<open>\<^verbatim>\<open>x >= y\<close> and \<^verbatim>\<open>x <= y\<close> are not the negation of \<^verbatim>\<open><\<close>: they too are false on
  \<open>NaN\<close>.\<close>

definition jle :: "jsnum \<Rightarrow> jsnum \<Rightarrow> bool" where
  "jle x y = (x \<noteq> NaN \<and> y \<noteq> NaN \<and> \<not> jlt y x)"

definition jge :: "jsnum \<Rightarrow> jsnum \<Rightarrow> bool" where
  "jge x y = jle y x"

text \<open>Truthiness of a number: \<open>0\<close> and \<open>NaN\<close> are falsy.\<close>

fun truthy :: "jsnum \<Rightarrow> bool" where
  "truthy (Num a) = (a \<noteq> 0)"
| "truthy NaN = False"
| "truthy PosInf = True"
| "truthy NegInf = True"

definition is_integer :: "real \<Rightarrow> bool" where
  "is_integer y = (y = of_int \<lfloor>y\<rfloor>)"

text \<open>\<^verbatim>\<open>Math.pow(base, exponent)\<close>, in the case order of the language definition.\<close>

definition jpow :: "jsnum \<Rightarrow> jsnum \<Rightarrow> jsnum" where
  "jpow b e =
     (case e of
        NaN \<Rightarrow> NaN
      | Num y \<Rightarrow>
          if y = 0 then Num 1
          else (case b of
                  NaN \<Rightarrow> NaN
                | PosInf \<Rightarrow> if 0 < y then PosInf else Num 0
                | NegInf \<Rightarrow>
                    if 0 < y then (if is_integer y \<and> odd \<lfloor>y\<rfloor> then NegInf else PosInf)
                    else Num 0
                | Num x \<Rightarrow>
                    if x = 0 then (if 0 < y then Num 0 else PosInf)
                    else if is_integer y then Num (x powi \<lfloor>y\<rfloor>)
                    else if x < 0 then NaN
                    else Num (x powr y))
      | PosInf \<Rightarrow>
          (case b of
             NaN \<Rightarrow> NaN
           | PosInf \<Rightarrow> PosInf
           | NegInf \<Rightarrow> PosInf
           | Num x \<Rightarrow> if 1 < \<bar>x\<bar> then PosInf else if \<bar>x\<bar> = 1 then NaN else Num 0)
      | NegInf \<Rightarrow>
          (case b of
             NaN \<Rightarrow> NaN
           | PosInf \<Rightarrow> Num 0
           | NegInf \<Rightarrow> Num 0
           | Num x \<Rightarrow> if 1 < \<bar>x\<bar> then Num 0 else if \<bar>x\<bar> = 1 then NaN else PosInf))"

section \<open>The calculation engine (\<^verbatim>\<open>src/zillow-api.ts\<close>)\<close>

text \<open>
  Record fields share one name space, so the field \<open>f\<close> of the parameter object of
  \<^verbatim>\<open>calculateAffordability\<close> is \<open>ap_f\<close>, of its result \<open>ar_f\<close>, of its breakdown
  \<open>bd_f\<close>; for \<^verbatim>\<open>calculateMortgagePayment\<close> the prefixes are \<open>mp_\<close> and \<open>mr_\<close>.
  An optional field is an \<open>option\<close>.
\<close>

record affordability_params =
  ap_annualIncome :: jsnum
  ap_downPayment :: jsnum
  ap_creditScore :: jsnum
  ap_monthlyDebts :: jsnum
  ap_interestRate :: "jsnum option"

record breakdown =
  bd_principalAndInterest :: jsnum
  bd_propertyTax :: jsnum
  bd_insurance :: jsnum
  bd_pmi :: jsnum
  bd_total :: jsnum

record assumptions =
  as_loanTerm :: jsnum
  as_propertyTaxRate :: jsnum
  as_insuranceRate :: jsnum
  as_maxDtiRatio :: jsnum

record affordability_result =
  ar_maxHomePrice :: jsnum
  ar_monthlyPayment :: jsnum
  ar_loanAmount :: jsnum
  ar_downPayment :: jsnum
  ar_interestRate :: jsnum
  ar_creditScore :: jsnum
  ar_dtiRatio :: string
  ar_breakdown :: breakdown
  ar_assumptions :: assumptions

text \<open>The intermediate constants of \<^verbatim>\<open>calculateAffordability\<close>, one definition each, under
  the source's names. The interest rate is the destructuring default \<open>6.5\<close> when the field
  is absent.\<close>

definition interestRate_of :: "affordability_params \<Rightarrow> jsnum" where
  "interestRate_of p = (case ap_interestRate p of None \<Rightarrow> Num 6.5 | Some r \<Rightarrow> r)"

definition monthlyIncome :: "affordability_params \<Rightarrow> jsnum" where
  "monthlyIncome p = jdiv (ap_annualIncome p) (Num 12)"

definition maxMonthlyPayment :: "affordability_params \<Rightarrow> jsnum" where
  "maxMonthlyPayment p = jsub (jmul (monthlyIncome p) (Num 0.43)) (ap_monthlyDebts p)"

definition monthlyRate :: "jsnum \<Rightarrow> jsnum" where
  "monthlyRate interestRate = jdiv (jdiv interestRate (Num 100)) (Num 12)"

definition numPayments30 :: jsnum where
  "numPayments30 = jmul (Num 30) (Num 12)"

text \<open>\<^verbatim>\<open>Math.pow(1 + monthlyRate, numPayments)\<close>, which both functions compute.\<close>

definition growth :: "jsnum \<Rightarrow> jsnum \<Rightarrow> jsnum" where
  "growth r n = jpow (jadd (Num 1) r) n"

definition maxLoanAmount :: "affordability_params \<Rightarrow> jsnum" where
  "maxLoanAmount p =
     (let r = monthlyRate (interestRate_of p); n = numPayments30
      in jmul (maxMonthlyPayment p)
           (jdiv (jsub (growth r n) (Num 1)) (jmul r (growth r n))))"

definition maxHomePrice :: "affordability_params \<Rightarrow> jsnum" where
  "maxHomePrice p = jround (jadd (maxLoanAmount p) (ap_downPayment p))"

definition estimatedMonthlyPayment :: "affordability_params \<Rightarrow> jsnum" where
  "estimatedMonthlyPayment p = jround (maxMonthlyPayment p)"

definition principalAndInterest :: "affordability_params \<Rightarrow> jsnum" where
  "principalAndInterest p =
     (let r = monthlyRate (interestRate_of p); n = numPayments30
      in jround (jdiv (jmul (maxLoanAmount p) (jmul r (growth r n)))
                      (jsub (growth r n) (Num 1))))"

definition propertyTax :: "affordability_params \<Rightarrow> jsnum" where
  "propertyTax p = jround (jdiv (jmul (maxHomePrice p) (Num 0.012)) (Num 12))"

definition insurance :: "affordability_params \<Rightarrow> jsnum" where
  "insurance p = jround (jdiv (jmul (maxHomePrice p) (Num 0.004)) (Num 12))"

definition pmi :: "affordability_params \<Rightarrow> jsnum" where
  "pmi p =
     (if jlt (ap_downPayment p) (jmul (maxHomePrice p) (Num 0.2))
      then jround (jdiv (jmul (maxLoanAmount p) (Num 0.005)) (Num 12))
      else Num 0)"

text \<open>
  \<^verbatim>\<open>calculateAffordability\<close>. The source has no \<^verbatim>\<open>throw\<close> and no early return: it always
  returns the object below. \<open>toFixed\<close> stands for the platform's
  \<^verbatim>\<open>Number.prototype.toFixed\<close>, which formats \<open>dtiRatio\<close>; it is a parameter.
\<close>

definition calculateAffordability ::
  "(nat \<Rightarrow> jsnum \<Rightarrow> string) \<Rightarrow> affordability_params \<Rightarrow> affordability_result" where
  "calculateAffordability toFixed p =
     \<lparr> ar_maxHomePrice = maxHomePrice p,
       ar_monthlyPayment = estimatedMonthlyPayment p,
       ar_loanAmount = jround (maxLoanAmount p),
       ar_downPayment = ap_downPayment p,
       ar_interestRate = interestRate_of p,
       ar_creditScore = ap_creditScore p,
       ar_dtiRatio =
         toFixed 2
           (jmul (jdiv (jadd (estimatedMonthlyPayment p) (ap_monthlyDebts p)) (monthlyIncome p))
                 (Num 100)),
       ar_breakdown =
         \<lparr> bd_principalAndInterest = principalAndInterest p,
           bd_propertyTax = propertyTax p,
           bd_insurance = insurance p,
           bd_pmi = pmi p,
           bd_total =
             jadd (jadd (jadd (principalAndInterest p) (propertyTax p)) (insurance p)) (pmi p) \<rparr>,
       ar_assumptions =
         \<lparr> as_loanTerm = Num 30,
           as_propertyTaxRate = Num 1.2,
           as_insuranceRate = Num 0.4,
           as_maxDtiRatio = Num 43 \<rparr> \<rparr>"

record mortgage_params =
  mp_homePrice :: jsnum
  mp_downPayment :: jsnum
  mp_interestRate :: jsnum
  mp_loanTerm :: jsnum

record mortgage_result =
  mr_homePrice :: jsnum
  mr_downPayment :: jsnum
  mr_loanAmount :: jsnum
  mr_interestRate :: jsnum
  mr_loanTerm :: jsnum
  mr_monthlyPayment :: jsnum
  mr_totalPayment :: jsnum
  mr_totalInterest :: jsnum
  mr_apr :: jsnum

text \<open>\<^verbatim>\<open>calculateMortgagePayment\<close>: again no \<^verbatim>\<open>throw\<close>, no check of the rate.\<close>

definition calculateMortgagePayment :: "mortgage_params \<Rightarrow> mortgage_result" where
  "calculateMortgagePayment p =
     (let loanAmount = jsub (mp_homePrice p) (mp_downPayment p);
          r = monthlyRate (mp_interestRate p);
          numPayments = jmul (mp_loanTerm p) (Num 12);
          monthlyPayment =
            jround (jdiv (jmul loanAmount (jmul r (growth r numPayments)))
                         (jsub (growth r numPayments) (Num 1)));
          totalPayment = jmul monthlyPayment numPayments;
          totalInterest = jsub totalPayment loanAmount
      in \<lparr> mr_homePrice = mp_homePrice p,
           mr_downPayment = mp_downPayment p,
           mr_loanAmount = loanAmount,
           mr_interestRate = mp_interestRate p,
           mr_loanTerm = mp_loanTerm p,
           mr_monthlyPayment = monthlyPayment,
           mr_totalPayment = totalPayment,
           mr_totalInterest = totalInterest,
           mr_apr = jadd (mp_interestRate p) (Num 0.2) \<rparr>)"

section \<open>Truthiness of optional values\<close>

text \<open>
  A field of a parsed argument object or of a provider reply may be absent
  (\<^verbatim>\<open>undefined\<close>): it is an \<open>option\<close>. The source tests such fields with \<^verbatim>\<open>if (x)\<close> and
  defaults them with \<^verbatim>\<open>x || d\<close>; both go by truthiness, so an absent field, the number 0,
  \<open>NaN\<close> and the empty string all take the default.
\<close>

definition num_truthy :: "jsnum option \<Rightarrow> bool" where
  "num_truthy x = (case x of None \<Rightarrow> False | Some n \<Rightarrow> truthy n)"

definition str_truthy :: "string option \<Rightarrow> bool" where
  "str_truthy x = (case x of None \<Rightarrow> False | Some s \<Rightarrow> s \<noteq> [])"

text \<open>\<^verbatim>\<open>x || d\<close> with a default that is always there.\<close>

definition num_or :: "jsnum option \<Rightarrow> jsnum \<Rightarrow> jsnum" where
  "num_or x d = (case x of None \<Rightarrow> d | Some n \<Rightarrow> if truthy n then n else d)"

definition str_or :: "string option \<Rightarrow> string \<Rightarrow> string" where
  "str_or x d = (case x of None \<Rightarrow> d | Some s \<Rightarrow> if s \<noteq> [] then s else d)"

text \<open>\<^verbatim>\<open>x || y\<close> where \<open>y\<close> may be absent too.\<close>

definition str_or_opt :: "string option \<Rightarrow> string option \<Rightarrow> string option" where
  "str_or_opt x y = (if str_truthy x then x else y)"

text \<open>\<^verbatim>\<open>if (p.f) q.f = p.f\<close>: the field is copied only when truthy.\<close>

definition keep_num :: "jsnum option \<Rightarrow> jsnum option" where
  "keep_num x = (if num_truthy x then x else None)"

definition keep_str :: "string option \<Rightarrow> string option" where
  "keep_str x = (if str_truthy x then x else None)"

text \<open>A template literal prints an absent value as \<^verbatim>\<open>undefined\<close>.\<close>

definition tmpl :: "string option \<Rightarrow> string" where
  "tmpl x = (case x of None \<Rightarrow> ''undefined'' | Some s \<Rightarrow> s)"

section \<open>The platform and the provider\<close>

text \<open>
  Number formatting belongs to the JavaScript platform, not to the repository; the three
  functions used are parameters of the handlers.
\<close>

record js_platform =
  pf_toFixed :: "nat \<Rightarrow> jsnum \<Rightarrow> string"
  pf_toString :: "jsnum \<Rightarrow> string"
  pf_toLocaleString :: "jsnum \<Rightarrow> string"

datatype status_type = ForSale | ForRent

text \<open>The query of a request, after \<^verbatim>\<open>makeRequest\<close> has dropped the absent parameters.\<close>

record coord_query =
  cq_lat :: jsnum
  cq_lng :: jsnum
  cq_status_type :: status_type
  cq_page :: jsnum
  cq_radius :: "jsnum option"

record search_query =
  sq_location :: string
  sq_status_type :: status_type
  sq_page :: jsnum
  sq_home_type :: "string option"
  sq_minPrice :: "jsnum option"
  sq_maxPrice :: "jsnum option"
  sq_bathsMin :: "jsnum option"
  sq_bedsMin :: "jsnum option"
  sq_sqftMin :: "jsnum option"
  sq_sqftMax :: "jsnum option"
  sq_sort :: "string option"

datatype request =
    LocationSuggestions string
  | PropertyByCoordinates coord_query
  | PropertyExtendedSearch search_query

text \<open>Replies. Every field the handlers read is read defensively, so every field is optional.\<close>

record property_details =
  pd_zpid :: "string option"
  pd_address :: "string option"
  pd_price :: "jsnum option"
  pd_bedrooms :: "jsnum option"
  pd_bathrooms :: "jsnum option"
  pd_livingArea :: "jsnum option"
  pd_propertyType :: "string option"
  pd_listingStatus :: "string option"
  pd_imgSrc :: "string option"
  pd_latitude :: "jsnum option"
  pd_longitude :: "jsnum option"
  pd_daysOnZillow :: "jsnum option"
  pd_lotAreaValue :: "jsnum option"
  pd_lotAreaUnit :: "string option"
  pd_hasImage :: "bool option"

record search_result =
  sr_totalResultCount :: "jsnum option"
  sr_props :: "property_details list option"
  sr_currentPage :: "jsnum option"
  sr_totalPages :: "jsnum option"

text \<open>An entry of \<^verbatim>\<open>resultGroups[0].results\<close>; \<open>ls_lat\<close> is \<^verbatim>\<open>metaData?.lat\<close> and so on.\<close>

record location_suggestion =
  ls_display :: "string option"
  ls_name :: "string option"
  ls_lat :: "jsnum option"
  ls_lng :: "jsnum option"
  ls_regionType :: "string option"

text \<open>
  The world outside the process: the provider behind \<^verbatim>\<open>fetch\<close> and the random number
  generator. Each call takes the state of the world and returns the next one, so a reply may
  depend on everything that happened before. A call to the provider either fails with a
  message (\<open>Inl\<close>: a network error, a status that is not OK, a body that does not parse, and
  for the two searches a \<^verbatim>\<open>null\<close> body, which the client dereferences) or delivers a
  reply. The reply to a location query is \<^verbatim>\<open>resultGroups?.[0]?.results\<close>, absent when
  the path is.
\<close>

record 's outside =
  out_locationSuggestions ::
    "string \<Rightarrow> 's \<Rightarrow> (string + location_suggestion list option) \<times> 's"
  out_propertyByCoordinates :: "coord_query \<Rightarrow> 's \<Rightarrow> (string + search_result) \<times> 's"
  out_propertyExtendedSearch :: "search_query \<Rightarrow> 's \<Rightarrow> (string + search_result) \<times> 's"
  out_random :: "'s \<Rightarrow> string \<times> 's"

text \<open>The state threaded through a handler: the world and the requests sent so far.\<close>

record 's run =
  world :: 's
  sent :: "request list"

section \<open>The client (\<^verbatim>\<open>src/zillow-api.ts\<close>)\<close>

definition searchLocationSuggestions ::
  "'s outside \<Rightarrow> string \<Rightarrow> 's run \<Rightarrow> (string + location_suggestion list option) \<times> 's run" where
  "searchLocationSuggestions out location st =
     (let (reply, w) = out_locationSuggestions out location (world st)
      in (reply, \<lparr> world = w, sent = sent st @ [LocationSuggestions location] \<rparr>))"

record coordinate_params =
  cp_lat :: jsnum
  cp_lng :: jsnum
  cp_status_type :: "status_type option"
  cp_radius :: "jsnum option"
  cp_page :: "jsnum option"

definition coordinate_apiParams :: "coordinate_params \<Rightarrow> coord_query" where
  "coordinate_apiParams params =
     \<lparr> cq_lat = cp_lat params,
       cq_lng = cp_lng params,
       cq_status_type = (case cp_status_type params of None \<Rightarrow> ForSale | Some t \<Rightarrow> t),
       cq_page = num_or (cp_page params) (Num 1),
       cq_radius = keep_num (cp_radius params) \<rparr>"

definition searchPropertiesByCoordinates ::
  "'s outside \<Rightarrow> coordinate_params \<Rightarrow> 's run \<Rightarrow> (string + search_result) \<times> 's run" where
  "searchPropertiesByCoordinates out params st =
     (let q = coordinate_apiParams params;
          (reply, w) = out_propertyByCoordinates out q (world st)
      in (reply, \<lparr> world = w, sent = sent st @ [PropertyByCoordinates q] \<rparr>))"

record property_search_params =
  psp_location :: string
  psp_status_type :: "status_type option"
  psp_home_type :: "string option"
  psp_minPrice :: "jsnum option"
  psp_maxPrice :: "jsnum option"
  psp_bathsMin :: "jsnum option"
  psp_bedsMin :: "jsnum option"
  psp_sqftMin :: "jsnum option"
  psp_sqftMax :: "jsnum option"
  psp_page :: "jsnum option"
  psp_sort :: "string option"

definition search_apiParams :: "property_search_params \<Rightarrow> search_query" where
  "search_apiParams params =
     \<lparr> sq_location = psp_location params,
       sq_status_type = (case psp_status_type params of None \<Rightarrow> ForSale | Some t \<Rightarrow> t),
       sq_page = num_or (psp_page params) (Num 1),
       sq_home_type = keep_str (psp_home_type params),
       sq_minPrice = keep_num (psp_minPrice params),
       sq_maxPrice = keep_num (psp_maxPrice params),
       sq_bathsMin = keep_num (psp_bathsMin params),
       sq_bedsMin = keep_num (psp_bedsMin params),
       sq_sqftMin = keep_num (psp_sqftMin params),
       sq_sqftMax = keep_num (psp_sqftMax params),
       sq_sort = keep_str (psp_sort params) \<rparr>"

definition searchProperties ::
  "'s outside \<Rightarrow> property_search_params \<Rightarrow> 's run \<Rightarrow> (string + search_result) \<times> 's run" where
  "searchProperties out params st =
     (let q = search_apiParams params;
          (reply, w) = out_propertyExtendedSearch out q (world st)
      in (reply, \<lparr> world = w, sent = sent st @ [PropertyExtendedSearch q] \<rparr>))"

section \<open>The tool dispatcher (\<^verbatim>\<open>src/server/server.ts\<close>)\<close>

text \<open>
  A handler receives the arguments of the call, a JSON object. The model types them: a field
  has the type the parser demands, and is an \<open>option\<close> where the parser allows its absence or
  where the JSON may lack it. The one parse failure kept is a missing \<^verbatim>\<open>location\<close> where
  the parser requires it; the parser runs before the handler's \<^verbatim>\<open>try\<close>, so its error
  leaves the dispatcher as an exception (\<open>Inl\<close>).
\<close>

datatype dispatch_error = InvalidArguments

datatype intent = IntentForSale | IntentForRent | IntentBoth

datatype listing_type = ListingForSale | ListingForRent

datatype home_kind = House | Apartment | Condo | Townhouse | MultiFamily

fun home_kind_name :: "home_kind \<Rightarrow> string" where
  "home_kind_name House = ''house''"
| "home_kind_name Apartment = ''apartment''"
| "home_kind_name Condo = ''condo''"
| "home_kind_name Townhouse = ''townhouse''"
| "home_kind_name MultiFamily = ''multi-family''"

text \<open>The \<^verbatim>\<open>filters\<close> argument of the area tool is an arbitrary JSON object, handed through.\<close>

typedecl json_object

datatype widget = AreasWidget | BuyabilityWidget | PropertySearchWidget

subsection \<open>Payloads\<close>

record area =
  area_name :: string
  area_propertyCount :: jsnum
  area_rentalCount :: jsnum
  area_avgPrice :: jsnum
  area_type :: string
  area_latitude :: "jsnum option"
  area_longitude :: "jsnum option"
  area_description :: "string option"

record featured_property =
  fp_id :: string
  fp_address :: "string option"
  fp_price :: jsnum
  fp_subtitle :: string
  fp_description :: string
  fp_imageUrl :: "string option"
  fp_latitude :: "jsnum option"
  fp_longitude :: "jsnum option"
  fp_bedrooms :: "jsnum option"
  fp_bathrooms :: "jsnum option"
  fp_sqft :: "jsnum option"
  fp_propertyType :: "string option"

record areas_content =
  ac_location :: string
  ac_propertyType :: intent
  ac_areas :: "area list"
  ac_featuredProperties :: "featured_property list"
  ac_filters :: "json_object option"
  ac_totalResults :: "jsnum option"
  ac_usingMockData :: bool

record affordability_content =
  fc_result :: affordability_result
  fc_location :: string
  fc_latitude :: "jsnum option"
  fc_longitude :: "jsnum option"

record demo_breakdown =
  db_principalAndInterest :: jsnum
  db_propertyTax :: jsnum
  db_insurance :: jsnum
  db_pmi :: jsnum

record demo_affordability_content =
  dc_annualIncome :: jsnum
  dc_downPayment :: jsnum
  dc_creditScore :: jsnum
  dc_monthlyDebts :: jsnum
  dc_location :: string
  dc_latitude :: jsnum
  dc_longitude :: jsnum
  dc_maxHomePrice :: jsnum
  dc_monthlyPayment :: jsnum
  dc_interestRate :: jsnum
  dc_breakdown :: demo_breakdown
  dc_usingMockData :: bool

record listing =
  li_id :: "string option"
  li_address :: "string option"
  li_price :: "jsnum option"
  li_bedrooms :: "jsnum option"
  li_bathrooms :: "jsnum option"
  li_sqft :: "jsnum option"
  li_propertyType :: "string option"
  li_imageUrl :: "string option"
  li_listingType :: listing_type
  li_listingStatus :: "string option"
  li_daysOnZillow :: "jsnum option"
  li_latitude :: "jsnum option"
  li_longitude :: "jsnum option"
  li_lotAreaValue :: "jsnum option"
  li_lotAreaUnit :: "string option"
  li_hasImage :: "bool option"

record search_filters =
  sf_minPrice :: "jsnum option"
  sf_maxPrice :: "jsnum option"
  sf_bedrooms :: "jsnum option"
  sf_bathrooms :: "jsnum option"
  sf_propertyType :: "home_kind option"
  sf_sqftMin :: "jsnum option"
  sf_sqftMax :: "jsnum option"

record search_content =
  sc_location :: string
  sc_listingType :: listing_type
  sc_filters :: search_filters
  sc_properties :: "listing list"
  sc_totalResults :: jsnum
  sc_currentPage :: "jsnum option"
  sc_totalPages :: "jsnum option"
  sc_usingMockData :: bool

datatype structured =
    Areas areas_content
  | Affordability affordability_content
  | DemoAffordability demo_affordability_content
  | Search search_content

text \<open>
  The response envelope: the text, the structured payload (absent in an error response),
  the widget whose metadata is attached, and the error flag. A flag the source leaves out
  (\<^verbatim>\<open>isError\<close>, \<^verbatim>\<open>usingMockData\<close>) is \<open>False\<close>.
\<close>

record tool_response =
  tr_text :: string
  tr_structured :: "structured option"
  tr_meta :: "widget option"
  tr_isError :: bool

definition error_response :: "string \<Rightarrow> tool_response" where
  "error_response message =
     \<lparr> tr_text = message, tr_structured = None, tr_meta = None, tr_isError = True \<rparr>"

subsection \<open>\<^verbatim>\<open>zillow_city_neighborhood_real_estate_information\<close>\<close>

record areas_args =
  aa_location :: "string option"
  aa_propertyType :: "intent option"
  aa_filters :: "json_object option"

text \<open>The two conditions on \<^verbatim>\<open>args.propertyType\<close> that guard the coordinate searches.\<close>

definition wants_sale :: "intent option \<Rightarrow> bool" where
  "wants_sale propertyType =
     (propertyType = Some IntentForSale \<or> propertyType = Some IntentBoth \<or> propertyType = None)"

definition wants_rent :: "intent option \<Rightarrow> bool" where
  "wants_rent propertyType =
     (propertyType = Some IntentForRent \<or> propertyType = Some IntentBoth)"

text \<open>\<^verbatim>\<open>prop.zpid || String(Math.random())\<close>: the generator is asked only when the id is
  missing or empty.\<close>

definition featured_id :: "'s outside \<Rightarrow> string option \<Rightarrow> 's run \<Rightarrow> string \<times> 's run" where
  "featured_id out zpid st =
     (case zpid of
        Some z \<Rightarrow>
          if z \<noteq> [] then (z, st)
          else (let (r, w) = out_random out (world st) in (r, st\<lparr>world := w\<rparr>))
      | None \<Rightarrow> (let (r, w) = out_random out (world st) in (r, st\<lparr>world := w\<rparr>)))"

text \<open>The object pushed to \<^verbatim>\<open>featuredProperties\<close>.\<close>

definition featured_entry ::
  "js_platform \<Rightarrow> location_suggestion \<Rightarrow> jsnum \<Rightarrow> property_details \<Rightarrow> string \<Rightarrow> featured_property"
  where
  "featured_entry pf location propertyCount prop ident =
     \<lparr> fp_id = ident,
       fp_address = str_or_opt (pd_address prop) (ls_display location),
       fp_price = num_or (Some propertyCount) (Num 0),
       fp_subtitle = str_or (pd_listingStatus prop) ''For Sale'',
       fp_description =
         str_or (pd_propertyType prop) ''Property'' @ '' - ''
         @ pf_toString pf (num_or (pd_bedrooms prop) (Num 0)) @ '' bed, ''
         @ pf_toString pf (num_or (pd_bathrooms prop) (Num 0)) @ '' bath'',
       fp_imageUrl = pd_imgSrc prop,
       fp_latitude = pd_latitude prop,
       fp_longitude = pd_longitude prop,
       fp_bedrooms = pd_bedrooms prop,
       fp_bathrooms = pd_bathrooms prop,
       fp_sqft = pd_livingArea prop,
       fp_propertyType = pd_propertyType prop \<rparr>"

text \<open>\<^verbatim>\<open>propsToAdd.forEach\<close>: a property is pushed while fewer than 8 are featured.\<close>

fun push_featured ::
  "'s outside \<Rightarrow> js_platform \<Rightarrow> location_suggestion \<Rightarrow> jsnum \<Rightarrow> property_details list \<Rightarrow>
   's run \<times> featured_property list \<Rightarrow> 's run \<times> featured_property list" where
  "push_featured out pf location propertyCount [] acc = acc"
| "push_featured out pf location propertyCount (prop # props) (st, featured) =
     (if length featured < 8
      then (let (ident, st') = featured_id out (pd_zpid prop) st
            in push_featured out pf location propertyCount props
                 (st', featured @ [featured_entry pf location propertyCount prop ident]))
      else push_featured out pf location propertyCount props (st, featured))"

text \<open>The second half of the \<^verbatim>\<open>try\<close> block: the search for rentals. The result is the
  state, \<open>propertyCount\<close>, \<open>rentalCount\<close> and the featured properties.\<close>

definition count_rentals ::
  "'s outside \<Rightarrow> intent option \<Rightarrow> jsnum \<Rightarrow> jsnum \<Rightarrow> jsnum \<Rightarrow> 's run \<times> featured_property list \<Rightarrow>
   's run \<times> jsnum \<times> jsnum \<times> featured_property list" where
  "count_rentals out propertyType lat lng propertyCount acc =
     (case acc of (st, featured) \<Rightarrow>
        if wants_rent propertyType
        then (case searchPropertiesByCoordinates out
                     \<lparr> cp_lat = lat, cp_lng = lng, cp_status_type = Some ForRent,
                       cp_radius = None, cp_page = Some (Num 1) \<rparr> st of
                (Inl coordError, st') \<Rightarrow> (st', propertyCount, Num 0, featured)
              | (Inr rentResults, st') \<Rightarrow>
                  (st', propertyCount, num_or (sr_totalResultCount rentResults) (Num 0), featured))
        else (st, propertyCount, Num 0, featured))"

text \<open>The whole \<^verbatim>\<open>try\<close> block. A failed search is caught: the counts assigned so far and
  the properties pushed so far stay, the rest of the block is skipped.\<close>

definition count_properties ::
  "'s outside \<Rightarrow> js_platform \<Rightarrow> intent option \<Rightarrow> location_suggestion \<Rightarrow> jsnum \<Rightarrow> jsnum \<Rightarrow>
   's run \<times> featured_property list \<Rightarrow> 's run \<times> jsnum \<times> jsnum \<times> featured_property list" where
  "count_properties out pf propertyType location lat lng acc =
     (case acc of (st, featured) \<Rightarrow>
        if wants_sale propertyType
        then (case searchPropertiesByCoordinates out
                     \<lparr> cp_lat = lat, cp_lng = lng, cp_status_type = Some ForSale,
                       cp_radius = None, cp_page = Some (Num 1) \<rparr> st of
                (Inl coordError, st') \<Rightarrow> (st', Num 0, Num 0, featured)
              | (Inr saleResults, st') \<Rightarrow>
                  (let propertyCount = num_or (sr_totalResultCount saleResults) (Num 0)
                   in count_rentals out propertyType lat lng propertyCount
                        (case sr_props saleResults of
                           None \<Rightarrow> (st', featured)
                         | Some props \<Rightarrow>
                             if length featured < 8
                             then push_featured out pf location propertyCount (take 2 props)
                                    (st', featured)
                             else (st', featured))))
        else count_rentals out propertyType lat lng (Num 0) (st, featured))"

definition area_of :: "js_platform \<Rightarrow> string \<Rightarrow> location_suggestion \<Rightarrow> jsnum \<Rightarrow> jsnum \<Rightarrow> area" where
  "area_of pf args_location location propertyCount rentalCount =
     \<lparr> area_name = str_or (str_or_opt (ls_display location) (ls_name location)) args_location,
       area_propertyCount = propertyCount,
       area_rentalCount = rentalCount,
       area_avgPrice = Num 0,
       area_type = str_or (ls_regionType location) ''neighborhood'',
       area_latitude = ls_lat location,
       area_longitude = ls_lng location,
       area_description =
         Some (tmpl (str_or_opt (ls_display location) (ls_name location)) @ '' - ''
               @ pf_toString pf propertyCount @ '' homes for sale''
               @ (if jlt (Num 0) rentalCount
                  then '', '' @ pf_toString pf rentalCount @ '' for rent'' else [])) \<rparr>"

text \<open>One turn of the loop over the locations.\<close>

definition area_step ::
  "'s outside \<Rightarrow> js_platform \<Rightarrow> string \<Rightarrow> intent option \<Rightarrow> location_suggestion \<Rightarrow>
   's run \<times> area list \<times> featured_property list \<Rightarrow> 's run \<times> area list \<times> featured_property list"
  where
  "area_step out pf args_location propertyType location acc =
     (case acc of (st, areas, featured) \<Rightarrow>
        (case (case (ls_lat location, ls_lng location) of
                 (Some lat, Some lng) \<Rightarrow>
                   if truthy lat \<and> truthy lng
                   then count_properties out pf propertyType location lat lng (st, featured)
                   else (st, Num 0, Num 0, featured)
               | _ \<Rightarrow> (st, Num 0, Num 0, featured)) of
           (st', propertyCount, rentalCount, featured') \<Rightarrow>
             (st', areas @ [area_of pf args_location location propertyCount rentalCount],
              featured')))"

fun area_loop ::
  "'s outside \<Rightarrow> js_platform \<Rightarrow> string \<Rightarrow> intent option \<Rightarrow> location_suggestion list \<Rightarrow>
   's run \<times> area list \<times> featured_property list \<Rightarrow> 's run \<times> area list \<times> featured_property list"
  where
  "area_loop out pf args_location propertyType [] acc = acc"
| "area_loop out pf args_location propertyType (location # locations) acc =
     area_loop out pf args_location propertyType locations
       (area_step out pf args_location propertyType location acc)"

definition mockAreas :: "string \<Rightarrow> area list" where
  "mockAreas args_location =
     [\<lparr> area_name = args_location @ '' - Downtown'', area_propertyCount = Num 45,
        area_rentalCount = Num 32, area_avgPrice = Num 450000, area_type = ''neighborhood'',
        area_latitude = Some (Num 47.6062), area_longitude = Some (Num (- 122.3321)),
        area_description = None \<rparr>,
      \<lparr> area_name = args_location @ '' - Suburbs'', area_propertyCount = Num 120,
        area_rentalCount = Num 85, area_avgPrice = Num 350000, area_type = ''neighborhood'',
        area_latitude = Some (Num 47.6205), area_longitude = Some (Num (- 122.3209)),
        area_description = None \<rparr>]"

definition mockFeaturedProperties :: "featured_property list" where
  "mockFeaturedProperties =
     [\<lparr> fp_id = ''1'', fp_address = Some ''Capitol Hill, WA'', fp_price = Num 45,
        fp_subtitle = ''Urban living'',
        fp_description = ''Vibrant neighborhood with great nightlife'',
        fp_imageUrl =
          Some ''https://photos.zillowstatic.com/fp/d6025c6891ff0e4f6c3b1b5e1eac3f09-cc_ft_768.webp'',
        fp_latitude = Some (Num 47.6205), fp_longitude = Some (Num (- 122.3209)),
        fp_bedrooms = None, fp_bathrooms = None, fp_sqft = None, fp_propertyType = None \<rparr>,
      \<lparr> fp_id = ''2'', fp_address = Some ''Queen Anne, WA'', fp_price = Num 32,
        fp_subtitle = ''Hilltop views'',
        fp_description = ''Stunning views of the city and mountains'',
        fp_imageUrl =
          Some ''https://photos.zillowstatic.com/fp/3c4e2d3c1b8f7e9a5c6d8e2f3a4b5c6d-cc_ft_768.webp'',
        fp_latitude = Some (Num 47.6369), fp_longitude = Some (Num (- 122.3573)),
        fp_bedrooms = None, fp_bathrooms = None, fp_sqft = None, fp_propertyType = None \<rparr>]"

definition intent_or_both :: "intent option \<Rightarrow> intent" where
  "intent_or_both propertyType = (case propertyType of None \<Rightarrow> IntentBoth | Some i \<Rightarrow> i)"

definition zillow_city_neighborhood_real_estate_information ::
  "'s outside option \<Rightarrow> js_platform \<Rightarrow> areas_args \<Rightarrow> 's run \<Rightarrow>
   (dispatch_error + tool_response) \<times> 's run" where
  "zillow_city_neighborhood_real_estate_information zillowApi pf args st =
     (case aa_location args of
        None \<Rightarrow> (Inl InvalidArguments, st)
      | Some location \<Rightarrow>
          (case zillowApi of
             Some out \<Rightarrow>
               (case searchLocationSuggestions out location st of
                  (Inl message, st1) \<Rightarrow>
                    (Inr (error_response
                            (''Error fetching data for '' @ location @ '': '' @ message)), st1)
                | (Inr results, st1) \<Rightarrow>
                    (case (case results of
                             None \<Rightarrow> (st1, [], [])
                           | Some locations \<Rightarrow>
                               area_loop out pf location (aa_propertyType args)
                                 (take 5 locations) (st1, [], [])) of
                       (st2, areas, featuredProperties) \<Rightarrow>
                         (let totalResults =
                                foldl (\<lambda>sum a. jadd sum (num_or (Some (area_propertyCount a)) (Num 0)))
                                  (Num 0) areas
                          in (Inr \<lparr> tr_text =
                                      ''Found '' @ pf_toString pf (Num (of_nat (length areas)))
                                      @ '' areas in '' @ location @ '' with ''
                                      @ pf_toString pf totalResults @ '' properties available.'',
                                    tr_structured =
                                      Some (Areas
                                        \<lparr> ac_location = location,
                                          ac_propertyType = intent_or_both (aa_propertyType args),
                                          ac_areas = areas,
                                          ac_featuredProperties = featuredProperties,
                                          ac_filters = aa_filters args,
                                          ac_totalResults = Some totalResults,
                                          ac_usingMockData = False \<rparr>),
                                    tr_meta = Some AreasWidget,
                                    tr_isError = False \<rparr>, st2))))
           | None \<Rightarrow>
               (Inr \<lparr> tr_text =
                        ''Found '' @ pf_toString pf (Num (of_nat (length (mockAreas location))))
                        @ '' areas in '' @ location
                        @ '' (using demo data - set RAPIDAPI_KEY for real data).'',
                      tr_structured =
                        Some (Areas
                          \<lparr> ac_location = location,
                            ac_propertyType = intent_or_both (aa_propertyType args),
                            ac_areas = mockAreas location,
                            ac_featuredProperties = mockFeaturedProperties,
                            ac_filters = aa_filters args,
                            ac_totalResults = None,
                            ac_usingMockData = True \<rparr>),
                      tr_meta = Some AreasWidget,
                      tr_isError = False \<rparr>, st)))"

subsection \<open>\<^verbatim>\<open>calculateHomeAffordability\<close>\<close>

record affordability_args =
  ha_annualIncome :: "jsnum option"
  ha_downPayment :: "jsnum option"
  ha_creditScore :: "jsnum option"
  ha_monthlyDebts :: "jsnum option"
  ha_location :: "string option"

text \<open>The coordinates of the first suggestion, for display; a failed lookup is caught and
  leaves them absent.\<close>

definition location_coordinates ::
  "'s outside \<Rightarrow> string option \<Rightarrow> 's run \<Rightarrow> (jsnum option \<times> jsnum option) \<times> 's run" where
  "location_coordinates out location st =
     (case location of
        None \<Rightarrow> ((None, None), st)
      | Some l \<Rightarrow>
          if l = [] then ((None, None), st)
          else (case searchLocationSuggestions out l st of
                  (Inl locError, st') \<Rightarrow> ((None, None), st')
                | (Inr None, st') \<Rightarrow> ((None, None), st')
                | (Inr (Some []), st') \<Rightarrow> ((None, None), st')
                | (Inr (Some (firstResult # others)), st') \<Rightarrow>
                    ((ls_lat firstResult, ls_lng firstResult), st')))"

text \<open>The object handed to \<^verbatim>\<open>calculateAffordability\<close>; no interest rate is passed.\<close>

definition affordability_input :: "affordability_args \<Rightarrow> affordability_params" where
  "affordability_input args =
     \<lparr> ap_annualIncome = num_or (ha_annualIncome args) (Num 75000),
       ap_downPayment = num_or (ha_downPayment args) (Num 50000),
       ap_creditScore = num_or (ha_creditScore args) (Num 720),
       ap_monthlyDebts = num_or (ha_monthlyDebts args) (Num 500),
       ap_interestRate = None \<rparr>"

definition calculateHomeAffordability ::
  "'s outside option \<Rightarrow> js_platform \<Rightarrow> affordability_args \<Rightarrow> 's run \<Rightarrow>
   (dispatch_error + tool_response) \<times> 's run" where
  "calculateHomeAffordability zillowApi pf args st =
     (case zillowApi of
        Some out \<Rightarrow>
          (let result = calculateAffordability (pf_toFixed pf) (affordability_input args)
           in (case location_coordinates out (ha_location args) st of
                 ((latitude, longitude), st') \<Rightarrow>
                   (Inr \<lparr> tr_text =
                            ''Based on your financial profile, you can afford a home up to $''
                            @ pf_toLocaleString pf (ar_maxHomePrice result)
                            @ '' with an estimated monthly payment of $''
                            @ pf_toLocaleString pf (ar_monthlyPayment result)
                            @ ''. Your DTI ratio is '' @ ar_dtiRatio result @ ''%.'',
                          tr_structured =
                            Some (Affordability
                              \<lparr> fc_result = result,
                                fc_location = str_or (ha_location args) ''United States'',
                                fc_latitude = latitude,
                                fc_longitude = longitude \<rparr>),
                          tr_meta = Some BuyabilityWidget,
                          tr_isError = False \<rparr>, st')))
      | None \<Rightarrow>
          (let income = num_or (ha_annualIncome args) (Num 75000);
               downPayment = num_or (ha_downPayment args) (Num 50000);
               maxHomePrice = jround (jadd (jmul income (Num 3)) downPayment);
               monthlyPayment = jround (jmul maxHomePrice (Num 0.005))
           in (Inr \<lparr> tr_text =
                        ''Based on your financial profile, you can afford a home up to $''
                        @ pf_toLocaleString pf maxHomePrice
                        @ '' with an estimated monthly payment of $''
                        @ pf_toLocaleString pf monthlyPayment
                        @ '' (using demo calculation - set RAPIDAPI_KEY for real data).'',
                      tr_structured =
                        Some (DemoAffordability
                          \<lparr> dc_annualIncome = income,
                            dc_downPayment = downPayment,
                            dc_creditScore = num_or (ha_creditScore args) (Num 720),
                            dc_monthlyDebts = num_or (ha_monthlyDebts args) (Num 500),
                            dc_location = str_or (ha_location args) ''United States'',
                            dc_latitude = Num 47.6062,
                            dc_longitude = Num (- 122.3321),
                            dc_maxHomePrice = maxHomePrice,
                            dc_monthlyPayment = monthlyPayment,
                            dc_interestRate = Num 6.5,
                            dc_breakdown =
                              \<lparr> db_principalAndInterest = jround (jmul monthlyPayment (Num 0.7)),
                                db_propertyTax = jround (jmul monthlyPayment (Num 0.15)),
                                db_insurance = jround (jmul monthlyPayment (Num 0.1)),
                                db_pmi = jround (jmul monthlyPayment (Num 0.05)) \<rparr>,
                            dc_usingMockData = True \<rparr>),
                      tr_meta = Some BuyabilityWidget,
                      tr_isError = False \<rparr>, st)))"

subsection \<open>\<^verbatim>\<open>zillow_property_search\<close>\<close>

record search_args =
  sa_location :: "string option"
  sa_listingType :: "listing_type option"
  sa_minPrice :: "jsnum option"
  sa_maxPrice :: "jsnum option"
  sa_bedrooms :: "jsnum option"
  sa_bathrooms :: "jsnum option"
  sa_propertyType :: "home_kind option"
  sa_sqftMin :: "jsnum option"
  sa_sqftMax :: "jsnum option"

definition listing_or_sale :: "listing_type option \<Rightarrow> listing_type" where
  "listing_or_sale listingType = (case listingType of None \<Rightarrow> ListingForSale | Some t \<Rightarrow> t)"

definition searchParams :: "string \<Rightarrow> search_args \<Rightarrow> property_search_params" where
  "searchParams location args =
     \<lparr> psp_location = location,
       psp_status_type =
         Some (if sa_listingType args = Some ListingForRent then ForRent else ForSale),
       psp_home_type = map_option home_kind_name (sa_propertyType args),
       psp_minPrice = keep_num (sa_minPrice args),
       psp_maxPrice = keep_num (sa_maxPrice args),
       psp_bathsMin = keep_num (sa_bathrooms args),
       psp_bedsMin = keep_num (sa_bedrooms args),
       psp_sqftMin = keep_num (sa_sqftMin args),
       psp_sqftMax = keep_num (sa_sqftMax args),
       psp_page = Some (Num 1),
       psp_sort = None \<rparr>"

definition listing_of :: "search_args \<Rightarrow> property_details \<Rightarrow> listing" where
  "listing_of args prop =
     \<lparr> li_id = pd_zpid prop,
       li_address = pd_address prop,
       li_price = pd_price prop,
       li_bedrooms = pd_bedrooms prop,
       li_bathrooms = pd_bathrooms prop,
       li_sqft = pd_livingArea prop,
       li_propertyType = pd_propertyType prop,
       li_imageUrl = pd_imgSrc prop,
       li_listingType = listing_or_sale (sa_listingType args),
       li_listingStatus = pd_listingStatus prop,
       li_daysOnZillow = pd_daysOnZillow prop,
       li_latitude = pd_latitude prop,
       li_longitude = pd_longitude prop,
       li_lotAreaValue = pd_lotAreaValue prop,
       li_lotAreaUnit = pd_lotAreaUnit prop,
       li_hasImage = pd_hasImage prop \<rparr>"

definition mock_listing ::
  "string \<Rightarrow> string \<Rightarrow> jsnum \<Rightarrow> jsnum \<Rightarrow> jsnum \<Rightarrow> search_args \<Rightarrow> listing" where
  "mock_listing ident address price bathrooms sqft args =
     \<lparr> li_id = Some ident,
       li_address = Some address,
       li_price = Some price,
       li_bedrooms = Some (num_or (sa_bedrooms args) (Num 3)),
       li_bathrooms = Some bathrooms,
       li_sqft = Some sqft,
       li_propertyType =
         Some (case sa_propertyType args of None \<Rightarrow> ''house'' | Some k \<Rightarrow> home_kind_name k),
       li_imageUrl = Some ''https://via.placeholder.com/400x300'',
       li_listingType = listing_or_sale (sa_listingType args),
       li_listingStatus = None,
       li_daysOnZillow = None,
       li_latitude = None,
       li_longitude = None,
       li_lotAreaValue = None,
       li_lotAreaUnit = None,
       li_hasImage = None \<rparr>"

definition mockProperties :: "string \<Rightarrow> search_args \<Rightarrow> listing list" where
  "mockProperties location args =
     [mock_listing ''1'' (''123 Main St, '' @ location) (Num 425000)
        (num_or (sa_bathrooms args) (Num 2)) (Num 2000) args,
      mock_listing ''2'' (''456 Oak Ave, '' @ location) (Num 385000)
        (Num 2.5) (Num 1850) args]"

definition zillow_property_search ::
  "'s outside option \<Rightarrow> js_platform \<Rightarrow> search_args \<Rightarrow> 's run \<Rightarrow>
   (dispatch_error + tool_response) \<times> 's run" where
  "zillow_property_search zillowApi pf args st =
     (case sa_location args of
        None \<Rightarrow> (Inl InvalidArguments, st)
      | Some location \<Rightarrow>
          (case zillowApi of
             Some out \<Rightarrow>
               (case searchProperties out (searchParams location args) st of
                  (Inl message, st') \<Rightarrow>
                    (Inr (error_response
                            (''Error searching properties in '' @ location @ '': '' @ message)),
                     st')
                | (Inr searchResult, st') \<Rightarrow>
                    (let properties =
                           (case sr_props searchResult of
                              None \<Rightarrow> []
                            | Some props \<Rightarrow> map (listing_of args) (take 10 props));
                         total = num_or (sr_totalResultCount searchResult)
                                   (Num (of_nat (length properties)))
                     in (Inr \<lparr> tr_text =
                                 ''Found '' @ pf_toString pf total @ '' properties in '' @ location
                                 @ '' matching your criteria. Showing ''
                                 @ pf_toString pf (Num (of_nat (length properties)))
                                 @ '' results.'',
                               tr_structured =
                                 Some (Search
                                   \<lparr> sc_location = location,
                                     sc_listingType = listing_or_sale (sa_listingType args),
                                     sc_filters =
                                       \<lparr> sf_minPrice = sa_minPrice args,
                                         sf_maxPrice = sa_maxPrice args,
                                         sf_bedrooms = sa_bedrooms args,
                                         sf_bathrooms = sa_bathrooms args,
                                         sf_propertyType = sa_propertyType args,
                                         sf_sqftMin = sa_sqftMin args,
                                         sf_sqftMax = sa_sqftMax args \<rparr>,
                                     sc_properties = properties,
                                     sc_totalResults = total,
                                     sc_currentPage =
                                       Some (num_or (sr_currentPage searchResult) (Num 1)),
                                     sc_totalPages =
                                       Some (num_or (sr_totalPages searchResult) (Num 1)),
                                     sc_usingMockData = False \<rparr>),
                               tr_meta = Some PropertySearchWidget,
                               tr_isError = False \<rparr>, st')))
           | None \<Rightarrow>
               (Inr \<lparr> tr_text =
                        ''Found ''
                        @ pf_toString pf (Num (of_nat (length (mockProperties location args))))
                        @ '' properties in '' @ location
                        @ '' matching your criteria (using demo data - set RAPIDAPI_KEY for real data).'',
                      tr_structured =
                        Some (Search
                          \<lparr> sc_location = location,
                            sc_listingType = listing_or_sale (sa_listingType args),
                            sc_filters =
                              \<lparr> sf_minPrice = sa_minPrice args,
                                sf_maxPrice = sa_maxPrice args,
                                sf_bedrooms = sa_bedrooms args,
                                sf_bathrooms = sa_bathrooms args,
                                sf_propertyType = sa_propertyType args,
                                sf_sqftMin = None,
                                sf_sqftMax = None \<rparr>,
                            sc_properties = mockProperties location args,
                            sc_totalResults = Num (of_nat (length (mockProperties location args))),
                            sc_currentPage = None,
                            sc_totalPages = None,
                            sc_usingMockData = True \<rparr>),
                      tr_meta = Some PropertySearchWidget,
                      tr_isError = False \<rparr>, st)))"

section \<open>Inputs and auxiliary notions used in the statements\<close>

text \<open>The present value of 360 unit payments at the monthly rate \<open>r\<close>: the factor by which
  \<^verbatim>\<open>calculateAffordability\<close> multiplies the monthly budget.\<close>

definition annuity :: "real \<Rightarrow> real" where
  "annuity r = ((1 + r) ^ 360 - 1) / (r * (1 + r) ^ 360)"

text \<open>The worked example of the specification.\<close>

definition spec_example :: affordability_params where
  "spec_example =
     \<lparr> ap_annualIncome = Num 95000, ap_downPayment = Num 65000, ap_creditScore = Num 740,
       ap_monthlyDebts = Num 450, ap_interestRate = Some (Num 6.5) \<rparr>"

text \<open>The same borrower as arguments of the tool.\<close>

definition spec_example_args :: affordability_args where
  "spec_example_args =
     \<lparr> ha_annualIncome = Some (Num 95000), ha_downPayment = Some (Num 65000),
       ha_creditScore = Some (Num 740), ha_monthlyDebts = Some (Num 450), ha_location = None \<rparr>"

text \<open>A formatter for closed instances whose formatted field plays no role.\<close>

definition toFixed0 :: "nat \<Rightarrow> jsnum \<Rightarrow> string" where
  "toFixed0 digits x = []"

definition zero_rate_loan :: mortgage_params where
  "zero_rate_loan =
     \<lparr> mp_homePrice = Num 400000, mp_downPayment = Num 80000, mp_interestRate = Num 0,
       mp_loanTerm = Num 30 \<rparr>"



definition zero_rate_example :: affordability_params where
  "zero_rate_example = spec_example\<lparr>ap_interestRate := Some (Num 0)\<rparr>"

definition negative_rate :: affordability_params where
  "negative_rate =
     \<lparr> ap_annualIncome = Num 12000, ap_downPayment = Num 0, ap_creditScore = Num 720,
       ap_monthlyDebts = Num 430, ap_interestRate = Some (Num (- 3600)) \<rparr>"



text \<open>The status types of the coordinate searches among a list of requests, in order.\<close>

fun coordinate_searches :: "request list \<Rightarrow> status_type list" where
  "coordinate_searches [] = []"
| "coordinate_searches (PropertyByCoordinates q # rs) = cq_status_type q # coordinate_searches rs"
| "coordinate_searches (r # rs) = coordinate_searches rs"


text \<open>A platform whose formatters print nothing, a provider that finds two areas around Austin
  and three listings at every coordinate, a provider that always fails, and the arguments
  of the closed instances.\<close>

definition pf0 :: js_platform where
  "pf0 = \<lparr> pf_toFixed = toFixed0, pf_toString = (\<lambda>x. []), pf_toLocaleString = (\<lambda>x. []) \<rparr>"

definition austin_suggestions :: "location_suggestion list" where
  "austin_suggestions =
     [\<lparr> ls_display = Some ''Austin, TX'', ls_name = Some ''Austin'',
        ls_lat = Some (Num 30.27), ls_lng = Some (Num (- 97.74)), ls_regionType = Some ''city'' \<rparr>,
      \<lparr> ls_display = Some ''Downtown Austin'', ls_name = Some ''Downtown'',
        ls_lat = Some (Num 30.26), ls_lng = Some (Num (- 97.75)),
        ls_regionType = Some ''neighborhood'' \<rparr>]"

definition sample_prop :: "string \<Rightarrow> string \<Rightarrow> jsnum \<Rightarrow> property_details" where
  "sample_prop zpid address price =
     \<lparr> pd_zpid = Some zpid, pd_address = Some address, pd_price = Some price,
       pd_bedrooms = Some (Num 3), pd_bathrooms = Some (Num 2), pd_livingArea = Some (Num 1800),
       pd_propertyType = Some ''SINGLE_FAMILY'', pd_listingStatus = Some ''FOR_SALE'',
       pd_imgSrc = None, pd_latitude = None, pd_longitude = None, pd_daysOnZillow = None,
       pd_lotAreaValue = None, pd_lotAreaUnit = None, pd_hasImage = None \<rparr>"

definition sample_props :: "property_details list" where
  "sample_props =
     [sample_prop ''101'' ''1 Congress Ave'' (Num 450000),
      sample_prop ''102'' ''2 Lamar Blvd'' (Num 520000),
      sample_prop ''103'' ''3 Barton Springs Rd'' (Num 610000)]"

definition sample_outside :: "unit outside" where
  "sample_outside =
     \<lparr> out_locationSuggestions = (\<lambda>location w. (Inr (Some austin_suggestions), w)),
       out_propertyByCoordinates =
         (\<lambda>q w. (Inr \<lparr> sr_totalResultCount =
                          Some (if cq_status_type q = ForRent then Num 640
                                else if cq_lat q = Num 30.27 then Num 1200 else Num 85),
                        sr_props = Some sample_props,
                        sr_currentPage = Some (Num 1), sr_totalPages = Some (Num 30) \<rparr>, w)),
       out_propertyExtendedSearch =
         (\<lambda>q w. (Inr \<lparr> sr_totalResultCount = Some (Num 1200), sr_props = Some sample_props,
                        sr_currentPage = Some (Num 1), sr_totalPages = Some (Num 30) \<rparr>, w)),
       out_random = (\<lambda>w. (''0.5'', w)) \<rparr>"

definition failing_outside :: "unit outside" where
  "failing_outside =
     \<lparr> out_locationSuggestions =
         (\<lambda>location w. (Inl ''Zillow API error: 503 Service Unavailable'', w)),
       out_propertyByCoordinates =
         (\<lambda>q w. (Inl ''Zillow API error: 503 Service Unavailable'', w)),
       out_propertyExtendedSearch =
         (\<lambda>q w. (Inl ''Zillow API error: 503 Service Unavailable'', w)),
       out_random = (\<lambda>w. (''0.5'', w)) \<rparr>"

definition start :: "unit run" where
  "start = \<lparr> world = (), sent = [] \<rparr>"

definition austin :: "intent option \<Rightarrow> areas_args" where
  "austin propertyType =
     \<lparr> aa_location = Some ''Austin, TX'', aa_propertyType = propertyType, aa_filters = None \<rparr>"

definition seattle_args :: search_args where
  "seattle_args =
     \<lparr> sa_location = Some ''Seattle, WA'', sa_listingType = None, sa_minPrice = None,
       sa_maxPrice = None, sa_bedrooms = Some (Num 3), sa_bathrooms = None,
       sa_propertyType = None, sa_sqftMin = None, sa_sqftMax = None \<rparr>"

section \<open>Arithmetic of the special values\<close>

lemma jadd_NaN_right [simp]: "jadd x NaN = NaN"
  by (cases x) simp_all

lemma jmul_NaN_right [simp]: "jmul x NaN = NaN"
  by (cases x) simp_all

lemma jdiv_NaN_right [simp]: "jdiv x NaN = NaN"
  by (cases x) simp_all

section \<open>The growth factor at the default rate\<close>

text \<open>
  At 6.5 per cent the monthly rate is \<open>13/2400\<close> and the growth factor is
  \<open>(2413/2400) ^ 360\<close>. Its value is enclosed by repeated cubing and squaring of
  twelve-digit bounds, which keeps every numeral small.
\<close>

lemma pow_step:
  fixes a b x :: real
  assumes "0 \<le> a" "a \<le> x \<and> x \<le> b" "a' \<le> a ^ n" "b ^ n \<le> b'"
  shows "a' \<le> x ^ n \<and> x ^ n \<le> b'"
proof -
  have "a ^ n \<le> x ^ n" using assms by (intro power_mono) auto
  moreover have "x ^ n \<le> b ^ n" using assms by (intro power_mono) auto
  ultimately show ?thesis using assms by linarith
qed

lemma q5: "1.027378329685 \<le> (2413 / 2400 :: real) ^ 5 \<and> (2413 / 2400 :: real) ^ 5 \<le> 1.027378329686"
  by (simp add: power_divide)

lemma q15: "1.084404229918 \<le> (2413 / 2400 :: real) ^ 15 \<and> (2413 / 2400 :: real) ^ 15 \<le> 1.084404229923"
proof -
  have e: "(2413 / 2400 :: real) ^ 15 = ((2413 / 2400) ^ 5) ^ 3"
    by (simp only: power_mult [symmetric]) simp
  show ?thesis unfolding e
    by (rule pow_step [OF _ q5]) (simp_all add: power_divide)
qed

lemma q45: "1.275186213820 \<le> (2413 / 2400 :: real) ^ 45 \<and> (2413 / 2400 :: real) ^ 45 \<le> 1.275186213839"
proof -
  have e: "(2413 / 2400 :: real) ^ 45 = ((2413 / 2400) ^ 15) ^ 3"
    by (simp only: power_mult [symmetric]) simp
  show ?thesis unfolding e
    by (rule pow_step [OF _ q15]) (simp_all add: power_divide)
qed

lemma q90: "1.626099879916 \<le> (2413 / 2400 :: real) ^ 90 \<and> (2413 / 2400 :: real) ^ 90 \<le> 1.626099879966"
proof -
  have e: "(2413 / 2400 :: real) ^ 90 = ((2413 / 2400) ^ 45) ^ 2"
    by (simp only: power_mult [symmetric]) simp
  show ?thesis unfolding e
    by (rule pow_step [OF _ q45]) (simp_all add: power_divide)
qed

lemma q180: "2.644200819462 \<le> (2413 / 2400 :: real) ^ 180 \<and> (2413 / 2400 :: real) ^ 180 \<le> 2.644200819626"
proof -
  have e: "(2413 / 2400 :: real) ^ 180 = ((2413 / 2400) ^ 90) ^ 2"
    by (simp only: power_mult [symmetric]) simp
  show ?thesis unfolding e
    by (rule pow_step [OF _ q90]) (simp_all add: power_divide)
qed

lemma q360: "6.991797973643 \<le> (2413 / 2400 :: real) ^ 360 \<and> (2413 / 2400 :: real) ^ 360 \<le> 6.991797974511"
proof -
  have e: "(2413 / 2400 :: real) ^ 360 = ((2413 / 2400) ^ 180) ^ 2"
    by (simp only: power_mult [symmetric]) simp
  show ?thesis unfolding e
    by (rule pow_step [OF _ q180]) (simp_all add: power_divide)
qed

lemma annuity65: "158.2108195 \<le> annuity (13 / 2400) \<and> annuity (13 / 2400) \<le> 158.2108196"
proof -
  define P :: real where "P = (2413 / 2400) ^ 360"
  have P: "6.991797973643 \<le> P" "P \<le> 6.991797974511" using q360 by (simp_all add: P_def)
  have a: "annuity (13 / 2400) = (P - 1) / (13 / 2400 * P)"
    by (simp add: annuity_def P_def)
  have pos: "0 < 13 / 2400 * P" using P by simp
  have "158.2108195 * (13 / 2400 * P) \<le> P - 1" using P by simp
  then have lo: "158.2108195 \<le> (P - 1) / (13 / 2400 * P)"
    using pos by (simp only: pos_le_divide_eq)
  have "P - 1 \<le> 158.2108196 * (13 / 2400 * P)" using P by simp
  then have hi: "(P - 1) / (13 / 2400 * P) \<le> 158.2108196"
    using pos by (simp only: pos_divide_le_eq)
  show ?thesis using lo hi a by simp
qed

section \<open>The engine on finite inputs\<close>

lemma numPayments30_eq: "numPayments30 = Num 360"
  by (simp add: numPayments30_def)

lemma growth_Num: "growth (Num r) (Num 360) = Num ((1 + r) ^ 360)"
  by (simp add: growth_def jpow_def is_integer_def)

lemma monthlyRate_Num: "monthlyRate (Num r) = Num (r / 1200)"
  by (simp add: monthlyRate_def)

lemma maxMonthlyPayment_Num:
  "ap_annualIncome p = Num a \<Longrightarrow> ap_monthlyDebts p = Num b \<Longrightarrow>
   maxMonthlyPayment p = Num (a / 12 * 0.43 - b)"
  by (simp add: maxMonthlyPayment_def monthlyIncome_def jsub_def)

lemma jdiv_Num: "b \<noteq> 0 \<Longrightarrow> jdiv (Num a) (Num b) = Num (a / b)"
  by simp

lemma rate_facts:
  fixes r :: real
  assumes "0 < r"
  shows "1 < (1 + r / 1200) ^ 360" and "0 < r / 1200 * (1 + r / 1200) ^ 360"
proof -
  have "1 < 1 + r / 1200" using assms by simp
  then show P: "1 < (1 + r / 1200) ^ 360" by (rule one_less_power) simp
  have "0 < r / 1200" using assms by simp
  moreover have "0 < (1 + r / 1200) ^ 360" using P by linarith
  ultimately show "0 < r / 1200 * (1 + r / 1200) ^ 360" by (rule mult_pos_pos)
qed

lemma annuity_pos: "0 < r \<Longrightarrow> 0 < annuity (r / 1200)"
  unfolding annuity_def using rate_facts [of r] by (intro divide_pos_pos) simp_all

text \<open>The range of rates in which the general statements are made: the exact values stay
  far inside the finite range of binary64.\<close>

lemma growth_in_range:
  fixes r :: real
  assumes "1 / 10 ^ 6 \<le> r" "r \<le> 1200"
  shows "1 / 2 ^ 31 \<le> r / 1200" and "1 < (1 + r / 1200) ^ 360"
    and "(1 + r / 1200) ^ 360 \<le> 2 ^ 360" and "r / 1200 * (1 + r / 1200) ^ 360 \<le> 2 ^ 360"
    and "0 < annuity (r / 1200)" and "annuity (r / 1200) \<le> 1200 * 10 ^ 6"
proof -
  have pos: "0 < r" using assms(1) by (rule less_le_trans [rotated]) simp
  show l: "1 / 2 ^ 31 \<le> r / 1200" using assms(1) by simp
  show g: "1 < (1 + r / 1200) ^ 360" by (rule rate_facts(1) [OF pos])
  have q: "1 + r / 1200 \<le> 2" using assms(2) by simp
  have q0: "0 \<le> 1 + r / 1200" using pos by simp
  show u: "(1 + r / 1200) ^ 360 \<le> 2 ^ 360" by (rule power_mono [OF q q0])
  have "r / 1200 * (1 + r / 1200) ^ 360 \<le> 1 * 2 ^ 360"
    using assms(2) pos u by (intro mult_mono) simp_all
  then show "r / 1200 * (1 + r / 1200) ^ 360 \<le> 2 ^ 360" by simp
  show "0 < annuity (r / 1200)" by (rule annuity_pos [OF pos])
  define P where "P = (1 + r / 1200) ^ 360"
  define m where "m = r / 1200"
  have P: "1 < P" using g by (simp add: P_def)
  have m: "0 < m" using pos by (simp add: m_def)
  have "(P - 1) / (m * P) \<le> 1 / m"
    using P m by (simp add: field_simps)
  also have "1 / m \<le> 1200 * 10 ^ 6"
    using assms(1) pos by (simp add: m_def field_simps)
  finally show "annuity (r / 1200) \<le> 1200 * 10 ^ 6"
    by (simp add: annuity_def P_def m_def)
qed

lemma maxLoanAmount_Num:
  assumes "ap_annualIncome p = Num a" "ap_monthlyDebts p = Num b" "interestRate_of p = Num r"
    and "0 < r"
  shows "maxLoanAmount p = Num ((a / 12 * 0.43 - b) * annuity (r / 1200))"
proof -
  define P where "P = (1 + r / 1200) ^ 360"
  define d where "d = r / 1200 * P"
  have "0 < d" unfolding d_def P_def by (rule rate_facts(2) [OF assms(4)])
  then have d: "d \<noteq> 0" by simp
  have g: "growth (Num (r / 1200)) (Num 360) = Num P"
    by (simp only: growth_Num P_def)
  have "jdiv (jsub (Num P) (Num 1)) (jmul (Num (r / 1200)) (Num P)) = Num ((P - 1) / d)"
    using d by (simp add: jsub_def d_def)
  then show ?thesis
    using assms(1-3)
    by (simp add: maxLoanAmount_def maxMonthlyPayment_Num monthlyRate_Num numPayments30_eq g
        annuity_def Let_def d_def P_def)
qed

lemma principalAndInterest_Num:
  assumes "ap_annualIncome p = Num a" "ap_monthlyDebts p = Num b" "interestRate_of p = Num r"
    and "0 < r"
  shows "principalAndInterest p = jround (Num (a / 12 * 0.43 - b))"
proof -
  define P where "P = (1 + r / 1200) ^ 360"
  define d where "d = r / 1200 * P"
  define m where "m = a / 12 * 0.43 - b"
  have "0 < d" unfolding d_def P_def by (rule rate_facts(2) [OF assms(4)])
  then have d: "d \<noteq> 0" by simp
  have "1 < P" unfolding P_def by (rule rate_facts(1) [OF assms(4)])
  then have n: "P - 1 \<noteq> 0" by simp
  have g: "growth (Num (r / 1200)) (Num 360) = Num P"
    by (simp only: growth_Num P_def)
  have L: "maxLoanAmount p = Num (m * ((P - 1) / d))"
    using maxLoanAmount_Num [OF assms] by (simp add: annuity_def m_def d_def P_def)
  have c: "m * ((P - 1) / d) * d / (P - 1) = m"
    using d n by simp
  have "jdiv (jmul (Num (m * ((P - 1) / d))) (jmul (Num (r / 1200)) (Num P))) (jsub (Num P) (Num 1))
      = Num m"
    using n c by (simp add: jsub_def d_def)
  then show ?thesis
    using assms(3)
    by (simp add: principalAndInterest_def monthlyRate_Num numPayments30_eq g L Let_def m_def)
qed

lemma growth_zero_rate: "growth (Num 0) n = Num 1 \<or> growth (Num 0) n = NaN"
  by (cases n) (simp_all add: growth_def jpow_def power_int_def)

lemma jdiv_zero_NaN: "jdiv (jmul x (Num 0)) (Num 0) = NaN"
  by (cases x) simp_all

section \<open>Closed evaluations of the engine\<close>

lemma jround_eq:
  "of_int n \<le> x + 1 / 2 \<Longrightarrow> x + 1 / 2 < of_int n + 1 \<Longrightarrow> jround (Num x) = Num (of_int n)"
  by (simp add: floor_unique)

lemma maxLoanAmount_default:
  assumes "ap_annualIncome p = Num a" "ap_monthlyDebts p = Num b"
    and "ap_interestRate p = None \<or> ap_interestRate p = Some (Num 6.5)"
  shows "maxLoanAmount p = Num ((a / 12 * 0.43 - b) * annuity (13 / 2400))"
proof -
  have r: "interestRate_of p = Num 6.5"
    using assms(3) by (auto simp: interestRate_of_def)
  show ?thesis using maxLoanAmount_Num [OF assms(1,2) r] by simp
qed

lemma spec_example_sel:
  "ap_annualIncome spec_example = Num 95000" "ap_downPayment spec_example = Num 65000"
  "ap_monthlyDebts spec_example = Num 450" "ap_interestRate spec_example = Some (Num 6.5)"
  by (simp_all add: spec_example_def)

lemma example_loan:
  assumes "ap_annualIncome p = Num 95000" "ap_monthlyDebts p = Num 450"
    and "ap_interestRate p = Some (Num 6.5)"
  shows "\<exists>l. maxLoanAmount p = Num l \<and> 467381.12 \<le> l \<and> l \<le> 467381.14"
proof -
  have "maxLoanAmount p = Num ((95000 / 12 * 0.43 - 450) * annuity (13 / 2400))"
    by (rule maxLoanAmount_default) (simp_all add: assms)
  moreover have "467381.12 \<le> (95000 / 12 * 0.43 - 450) * annuity (13 / 2400)"
    using annuity65 by simp
  moreover have "(95000 / 12 * 0.43 - 450) * annuity (13 / 2400) \<le> 467381.14"
    using annuity65 by simp
  ultimately show ?thesis by blast
qed

lemma example_maxHomePrice: "maxHomePrice spec_example = Num 532381"
proof -
  obtain l where l: "maxLoanAmount spec_example = Num l" "467381.12 \<le> l" "l \<le> 467381.14"
    using example_loan [OF spec_example_sel(1,3,4)] by blast
  have "jround (Num (l + 65000)) = Num (of_int 532381)"
    by (rule jround_eq) (use l in simp_all)
  then show ?thesis by (simp add: maxHomePrice_def l spec_example_sel)
qed

lemma example_pmi: "pmi spec_example = Num 195"
proof -
  obtain l where l: "maxLoanAmount spec_example = Num l" "467381.12 \<le> l" "l \<le> 467381.14"
    using example_loan [OF spec_example_sel(1,3,4)] by blast
  have "jround (Num (l * (5 / 1000) / 12)) = Num (of_int 195)"
    by (rule jround_eq) (use l in simp_all)
  then show ?thesis by (simp add: pmi_def example_maxHomePrice l spec_example_sel)
qed

lemma example_principalAndInterest: "principalAndInterest spec_example = Num 2954"
proof -
  have "principalAndInterest spec_example = jround (Num (95000 / 12 * 0.43 - 450))"
    by (rule principalAndInterest_Num [where r = "6.5"])
       (simp_all add: spec_example_sel interestRate_of_def)
  then show ?thesis by simp
qed

lemma jle_Num [simp]: "jle (Num x) (Num y) = (x \<le> y)"
  by (auto simp: jle_def)

lemma jge_Num [simp]: "jge (Num x) (Num y) = (y \<le> x)"
  by (simp add: jge_def)

lemma jround_mono: "x \<le> y \<Longrightarrow> jle (jround (Num x)) (jround (Num y))"
  by (simp add: floor_mono)

lemma maxHomePrice_Num:
  assumes "ap_annualIncome p = Num a" "ap_monthlyDebts p = Num b" "interestRate_of p = Num r"
    and "0 < r" and "ap_downPayment p = Num d"
  shows "maxHomePrice p = jround (Num ((a / 12 * 0.43 - b) * annuity (r / 1200) + d))"
  using maxLoanAmount_Num [OF assms(1-4)] assms(5) by (simp add: maxHomePrice_def)











lemma zero_rate_price:
  assumes "ap_annualIncome p = Num a" "ap_monthlyDebts p = Num b"
    and "ap_interestRate p = Some (Num 0)"
  shows "maxHomePrice p = NaN"
proof -
  have "maxLoanAmount p = NaN"
    using assms
    by (simp add: maxLoanAmount_def interestRate_of_def monthlyRate_Num numPayments30_eq
        growth_Num jsub_def maxMonthlyPayment_Num)
  then show ?thesis by (simp add: maxHomePrice_def)
qed

lemma negative_rate_price_730:
  "maxHomePrice (negative_rate\<lparr>ap_monthlyDebts := Num 730\<rparr>) = Num 100"
  by (simp add: maxHomePrice_def maxLoanAmount_def interestRate_of_def monthlyRate_Num
      numPayments30_eq growth_Num jsub_def maxMonthlyPayment_def monthlyIncome_def
      negative_rate_def)

lemma negative_rate_price_430: "maxHomePrice negative_rate = Num 0"
  by (simp add: maxHomePrice_def maxLoanAmount_def interestRate_of_def monthlyRate_Num
      numPayments30_eq growth_Num jsub_def maxMonthlyPayment_def monthlyIncome_def
      negative_rate_def)

text \<open>
  The demo calculation of \<^verbatim>\<open>calculateHomeAffordability\<close> (the path without a provider)
  on the same borrower: it splits its monthly payment of 1750 into shares of 70, 15, 10 and 5
  per cent, which sum to 1751.
\<close>

lemma demo_path_example:
  "\<exists>response content.
     fst (calculateHomeAffordability None pf spec_example_args st) = Inr response
     \<and> tr_structured response = Some (DemoAffordability content)
     \<and> dc_monthlyPayment content = Num 1750
     \<and> dc_breakdown content
       = \<lparr> db_principalAndInterest = Num 1225, db_propertyTax = Num 263,
           db_insurance = Num 175, db_pmi = Num 88 \<rparr>"
  by (simp add: calculateHomeAffordability_def spec_example_args_def num_or_def Let_def)

section \<open>Claims about the calculation engine\<close>

text \<open>
  C2, as amended. The claim asks for an \<open>InvalidRate\<close> error at a zero rate. The function
  has no check and no \<^verbatim>\<open>throw\<close>: with \<open>interestRate = 0\<close> it returns, for every home
  price, down payment and loan term, a result whose monthly payment is \<open>NaN\<close> (the quotient
  \<open>0 / 0\<close>), and so are the total payment and the total interest.
\<close>

theorem mortgage_zero_rate_NaN:
  assumes "mp_interestRate p = Num 0"
  shows "mr_monthlyPayment (calculateMortgagePayment p) = NaN
       \<and> mr_totalPayment (calculateMortgagePayment p) = NaN
       \<and> mr_totalInterest (calculateMortgagePayment p) = NaN"
proof -
  define n where "n = jmul (mp_loanTerm p) (Num 12)"
  define l where "l = jsub (mp_homePrice p) (mp_downPayment p)"
  have r: "monthlyRate (mp_interestRate p) = Num 0"
    using assms by (simp add: monthlyRate_def)
  have "jround (jdiv (jmul l (jmul (Num 0) (growth (Num 0) n))) (jsub (growth (Num 0) n) (Num 1))) = NaN"
    using growth_zero_rate [of n] jdiv_zero_NaN [of l] by (auto simp: jsub_def)
  then have m: "mr_monthlyPayment (calculateMortgagePayment p) = NaN"
    by (simp add: calculateMortgagePayment_def Let_def r n_def l_def)
  then show ?thesis
    by (simp add: calculateMortgagePayment_def Let_def jsub_def)
qed

text \<open>The theorem at a 400000 home with 80000 down over 30 years.\<close>

theorem mortgage_zero_rate_NaN_witness:
  "mp_interestRate zero_rate_loan = Num 0
   \<and> mr_monthlyPayment (calculateMortgagePayment zero_rate_loan) = NaN
   \<and> mr_totalPayment (calculateMortgagePayment zero_rate_loan) = NaN
   \<and> mr_totalInterest (calculateMortgagePayment zero_rate_loan) = NaN"
proof -
  have h: "mp_interestRate zero_rate_loan = Num 0" by (simp add: zero_rate_loan_def)
  show ?thesis using h mortgage_zero_rate_NaN [OF h] by simp
qed

text \<open>C2 as stated fails: at rate 0 the call returns, and the payment it returns is \<open>NaN\<close>.\<close>

theorem mortgage_zero_rate_counterexample:
  "mr_monthlyPayment
     (calculateMortgagePayment
        \<lparr> mp_homePrice = Num 400000, mp_downPayment = Num 80000, mp_interestRate = Num 0,
          mp_loanTerm = Num 30 \<rparr>) = NaN"
  by (simp add: calculateMortgagePayment_def Let_def monthlyRate_def growth_def jpow_def
      is_integer_def jsub_def)

text \<open>
  C8. Two runs that differ only in the credit score differ only in the echoed credit score:
  the run on the changed input is the run on the original input with that one field replaced.
  Maximum price, loan amount, monthly payment, rate, DTI ratio, breakdown and assumptions
  are the same.
\<close>

theorem creditScore_noninterference:
  "calculateAffordability toFixed (p\<lparr>ap_creditScore := c\<rparr>)
   = (calculateAffordability toFixed p)\<lparr>ar_creditScore := c\<rparr>"
  by (simp add: calculateAffordability_def maxHomePrice_def estimatedMonthlyPayment_def
      maxLoanAmount_def maxMonthlyPayment_def monthlyIncome_def interestRate_of_def
      principalAndInterest_def propertyTax_def insurance_def pmi_def)

text \<open>
  C1. The claim: the four breakdown components sum to within one unit of the reported
  monthly payment. On the specification's own example the code reports a monthly payment of
  2954, which is the rounded DTI budget and equals the principal-and-interest component
  alone; property tax 532, insurance 177 and PMI 195 come on top, and the breakdown sums to
  3858 (the field \<open>total\<close>), 904 more than the reported payment. The demo path of the
  same tool does keep the components within one unit of its payment.
\<close>

theorem affordability_example_breakdown:
  "ar_monthlyPayment (calculateAffordability toFixed spec_example) = Num 2954
   \<and> ar_maxHomePrice (calculateAffordability toFixed spec_example) = Num 532381
   \<and> ar_breakdown (calculateAffordability toFixed spec_example)
       = \<lparr> bd_principalAndInterest = Num 2954, bd_propertyTax = Num 532,
           bd_insurance = Num 177, bd_pmi = Num 195, bd_total = Num 3858 \<rparr>"
proof -
  have m: "estimatedMonthlyPayment spec_example = Num 2954"
    by (simp add: estimatedMonthlyPayment_def maxMonthlyPayment_def monthlyIncome_def jsub_def
        spec_example_sel)
  have t: "propertyTax spec_example = Num 532"
    by (simp add: propertyTax_def example_maxHomePrice)
  have i: "insurance spec_example = Num 177"
    by (simp add: insurance_def example_maxHomePrice)
  show ?thesis
    by (simp add: calculateAffordability_def m t i example_maxHomePrice example_pmi
        example_principalAndInterest)
qed







text \<open>
  C6, as amended. For finite inputs and an interest rate between \<open>1 / 10 ^ 6\<close> and 1200 per
  cent (the default 6.5 included), an input that differs only by a larger down payment has
  a maximum home price that is greater or equal, and an input that differs only by larger
  monthly debts has one that is less or equal. Outside that range of rates the code can
  return \<open>NaN\<close> for both prices (at rate 0, and where the growth factor overflows or the
  monthly rate underflows), and a rate below \<open>-1200\<close> reverses the order.
\<close>

theorem maxHomePrice_monotone:
  assumes "ap_annualIncome p = Num a" "ap_downPayment p = Num d" "ap_monthlyDebts p = Num b"
    and "interestRate_of p = Num r" "1 / 10 ^ 6 \<le> r" "r \<le> 1200"
  shows "(d \<le> d' \<longrightarrow>
            jle (ar_maxHomePrice (calculateAffordability toFixed p))
                (ar_maxHomePrice (calculateAffordability toFixed (p\<lparr>ap_downPayment := Num d'\<rparr>))))
       \<and> (b \<le> b' \<longrightarrow>
            jle (ar_maxHomePrice (calculateAffordability toFixed (p\<lparr>ap_monthlyDebts := Num b'\<rparr>)))
                (ar_maxHomePrice (calculateAffordability toFixed p)))"
proof -
  define A where "A = annuity (r / 1200)"
  have pos: "0 < r" using assms(5) by (rule less_le_trans [rotated]) simp
  have A: "0 < A" unfolding A_def by (rule growth_in_range(5) [OF assms(5,6)])
  have hp: "maxHomePrice p = jround (Num ((a / 12 * 0.43 - b) * A + d))"
    unfolding A_def by (rule maxHomePrice_Num [OF assms(1,3,4) pos assms(2)])
  have hd: "maxHomePrice (p\<lparr>ap_downPayment := Num d'\<rparr>) = jround (Num ((a / 12 * 0.43 - b) * A + d'))"
    unfolding A_def
    by (rule maxHomePrice_Num) (use assms pos in \<open>simp_all add: interestRate_of_def\<close>)
  have hb: "maxHomePrice (p\<lparr>ap_monthlyDebts := Num b'\<rparr>) = jround (Num ((a / 12 * 0.43 - b') * A + d))"
    unfolding A_def
    by (rule maxHomePrice_Num) (use assms pos in \<open>simp_all add: interestRate_of_def\<close>)
  have 1: "d \<le> d' \<Longrightarrow> jle (maxHomePrice p) (maxHomePrice (p\<lparr>ap_downPayment := Num d'\<rparr>))"
    unfolding hp hd by (rule jround_mono) simp
  have 2: "jle (maxHomePrice (p\<lparr>ap_monthlyDebts := Num b'\<rparr>)) (maxHomePrice p)" if "b \<le> b'"
  proof -
    have "(a / 12 * 0.43 - b') * A \<le> (a / 12 * 0.43 - b) * A"
      using that A by (intro mult_right_mono) simp_all
    then show ?thesis unfolding hp hb by (intro jround_mono) simp
  qed
  show ?thesis using 1 2 by (simp add: calculateAffordability_def)
qed

text \<open>The theorem at the specification's example, against 70000 down and against debts of
  900.\<close>

theorem maxHomePrice_monotone_witness:
  "ap_annualIncome spec_example = Num 95000 \<and> ap_downPayment spec_example = Num 65000
   \<and> ap_monthlyDebts spec_example = Num 450 \<and> interestRate_of spec_example = Num 6.5
   \<and> (1 :: real) / 10 ^ 6 \<le> 6.5 \<and> (6.5 :: real) \<le> 1200
   \<and> (65000 :: real) \<le> 70000 \<and> (450 :: real) \<le> 900
   \<and> jle (ar_maxHomePrice (calculateAffordability toFixed0 spec_example))
         (ar_maxHomePrice
            (calculateAffordability toFixed0 (spec_example\<lparr>ap_downPayment := Num 70000\<rparr>)))
   \<and> jle (ar_maxHomePrice
            (calculateAffordability toFixed0 (spec_example\<lparr>ap_monthlyDebts := Num 900\<rparr>)))
         (ar_maxHomePrice (calculateAffordability toFixed0 spec_example))"
proof -
  have h: "ap_annualIncome spec_example = Num 95000" "ap_downPayment spec_example = Num 65000"
    "ap_monthlyDebts spec_example = Num 450" "interestRate_of spec_example = Num 6.5"
    "(1 :: real) / 10 ^ 6 \<le> 6.5" "(6.5 :: real) \<le> 1200"
    by (simp_all add: spec_example_sel interestRate_of_def)
  have o: "(65000 :: real) \<le> 70000" "(450 :: real) \<le> 900" by simp_all
  show ?thesis
    using h o maxHomePrice_monotone [OF h, of 70000 toFixed0 900] by blast
qed

text \<open>C6 as stated fails where the rate is not positive. At rate 0 the price is \<open>NaN\<close> on
  both inputs, and \<open>NaN >= NaN\<close> is false. At the rate \<open>-3600\<close>, debts of 430 give the price
  0 and the larger debts of 730 give the larger price 100.\<close>

theorem maxHomePrice_monotone_counterexample:
  "\<not> jge (ar_maxHomePrice
             (calculateAffordability toFixed0 (zero_rate_example\<lparr>ap_downPayment := Num 70000\<rparr>)))
          (ar_maxHomePrice (calculateAffordability toFixed0 zero_rate_example))
   \<and> ar_maxHomePrice (calculateAffordability toFixed0 negative_rate) = Num 0
   \<and> ar_maxHomePrice
         (calculateAffordability toFixed0 (negative_rate\<lparr>ap_monthlyDebts := Num 730\<rparr>)) = Num 100"
proof -
  have "maxHomePrice zero_rate_example = NaN"
    by (rule zero_rate_price [where a = 95000 and b = 450])
       (simp_all add: zero_rate_example_def spec_example_def)
  then show ?thesis
    by (simp add: calculateAffordability_def negative_rate_price_430 negative_rate_price_730
        jge_def jle_def)
qed

section \<open>The requests a handler sends\<close>

lemma coordinate_searches_append [simp]:
  "coordinate_searches (xs @ ys) = coordinate_searches xs @ coordinate_searches ys"
  by (induction xs rule: coordinate_searches.induct) simp_all

lemma searchPropertiesByCoordinates_sent:
  "sent (snd (searchPropertiesByCoordinates out params st))
   = sent st @ [PropertyByCoordinates (coordinate_apiParams params)]"
  by (simp add: searchPropertiesByCoordinates_def Let_def split: prod.splits)

lemma featured_id_sent [simp]: "sent (snd (featured_id out zpid st)) = sent st"
  by (simp add: featured_id_def Let_def split: option.splits prod.splits)

lemma push_featured_sent [simp]:
  "sent (fst (push_featured out pf location propertyCount props (st, featured))) = sent st"
proof (induction props arbitrary: st featured)
  case Nil
  then show ?case by simp
next
  case (Cons x props)
  show ?case
  proof (cases "length featured < 8")
    case True
    obtain ident st' where i: "featured_id out (pd_zpid x) st = (ident, st')"
      by (cases "featured_id out (pd_zpid x) st")
    have "sent st' = sent st" using featured_id_sent [of out "pd_zpid x" st] by (simp add: i)
    then show ?thesis using True Cons.IH [of st'] by (simp add: i)
  next
    case False
    then show ?thesis using Cons.IH by simp
  qed
qed

lemma count_rentals_sent:
  "\<exists>new. sent (fst (count_rentals out propertyType lat lng propertyCount (st, featured)))
          = sent st @ new
       \<and> set (coordinate_searches new) \<subseteq> (if wants_rent propertyType then {ForRent} else {})"
proof (cases "wants_rent propertyType")
  case False
  then show ?thesis by (simp add: count_rentals_def)
next
  case True
  define params where
    "params = \<lparr> cp_lat = lat, cp_lng = lng, cp_status_type = Some ForRent,
                 cp_radius = None, cp_page = Some (Num 1) \<rparr>"
  obtain reply st' where r: "searchPropertiesByCoordinates out params st = (reply, st')"
    by (cases "searchPropertiesByCoordinates out params st")
  have s: "sent st' = sent st @ [PropertyByCoordinates (coordinate_apiParams params)]"
    using searchPropertiesByCoordinates_sent [of out params st] by (simp add: r)
  have "sent (fst (count_rentals out propertyType lat lng propertyCount (st, featured))) = sent st'"
    using True r by (simp add: count_rentals_def params_def split: sum.splits)
  moreover have "coordinate_searches [PropertyByCoordinates (coordinate_apiParams params)] = [ForRent]"
    by (simp add: coordinate_apiParams_def params_def)
  ultimately show ?thesis using True s by (intro exI [of _ "[PropertyByCoordinates (coordinate_apiParams params)]"]) simp
qed

lemma count_properties_sent:
  "\<exists>new. sent (fst (count_properties out pf propertyType location lat lng (st, featured)))
          = sent st @ new
       \<and> set (coordinate_searches new)
           \<subseteq> (if wants_sale propertyType then {ForSale} else {})
             \<union> (if wants_rent propertyType then {ForRent} else {})"
proof (cases "wants_sale propertyType")
  case False
  then show ?thesis
    using count_rentals_sent [of out propertyType lat lng "Num 0" st featured]
    by (simp add: count_properties_def)
next
  case True
  define params where
    "params = \<lparr> cp_lat = lat, cp_lng = lng, cp_status_type = Some ForSale,
                 cp_radius = None, cp_page = Some (Num 1) \<rparr>"
  define req where "req = PropertyByCoordinates (coordinate_apiParams params)"
  obtain reply st' where r: "searchPropertiesByCoordinates out params st = (reply, st')"
    by (cases "searchPropertiesByCoordinates out params st")
  have s: "sent st' = sent st @ [req]"
    using searchPropertiesByCoordinates_sent [of out params st] by (simp add: r req_def)
  have c: "coordinate_searches [req] = [ForSale]"
    by (simp add: coordinate_apiParams_def params_def req_def)
  show ?thesis
  proof (cases reply)
    case (Inl coordError)
    then have "sent (fst (count_properties out pf propertyType location lat lng (st, featured)))
        = sent st @ [req]"
      using True r s by (simp add: count_properties_def params_def)
    then show ?thesis using True c by (intro exI [of _ "[req]"]) simp
  next
    case (Inr saleResults)
    let ?pc = "num_or (sr_totalResultCount saleResults) (Num 0)"
    define acc where
      "acc = (case sr_props saleResults of
                None \<Rightarrow> (st', featured)
              | Some props \<Rightarrow>
                  if length featured < 8
                  then push_featured out pf location ?pc (take 2 props) (st', featured)
                  else (st', featured))"
    obtain st2 f2 where a: "acc = (st2, f2)" by (cases acc)
    have "sent (fst acc) = sent st'" by (simp add: acc_def split: option.splits)
    then have s2: "sent st2 = sent st @ [req]" using s a by simp
    have "count_properties out pf propertyType location lat lng (st, featured)
        = count_rentals out propertyType lat lng ?pc acc"
      using True r Inr by (simp add: count_properties_def params_def acc_def Let_def)
    then have e: "count_properties out pf propertyType location lat lng (st, featured)
        = count_rentals out propertyType lat lng ?pc (st2, f2)"
      by (simp only: a)
    obtain new where n: "sent (fst (count_rentals out propertyType lat lng ?pc (st2, f2)))
          = sent st2 @ new"
      "set (coordinate_searches new) \<subseteq> (if wants_rent propertyType then {ForRent} else {})"
      using count_rentals_sent [of out propertyType lat lng ?pc st2 f2] by blast
    show ?thesis
    proof (intro exI [of _ "[req] @ new"] conjI)
      show "sent (fst (count_properties out pf propertyType location lat lng (st, featured)))
          = sent st @ [req] @ new"
        using n(1) s2 e by simp
      show "set (coordinate_searches ([req] @ new))
          \<subseteq> (if wants_sale propertyType then {ForSale} else {})
            \<union> (if wants_rent propertyType then {ForRent} else {})"
        unfolding coordinate_searches_append c using True n(2) by auto
    qed
  qed
qed

lemma area_step_sent:
  "\<exists>new. sent (fst (area_step out pf args_location propertyType location (st, areas, featured)))
          = sent st @ new
       \<and> set (coordinate_searches new)
           \<subseteq> (if wants_sale propertyType then {ForSale} else {})
             \<union> (if wants_rent propertyType then {ForRent} else {})"
proof -
  have skip: ?thesis
    if "area_step out pf args_location propertyType location (st, areas, featured)
        = (st, areas @ [area_of pf args_location location (Num 0) (Num 0)], featured)"
    using that by simp
  show ?thesis
  proof (cases "ls_lat location")
    case None
    then show ?thesis by (intro skip) (simp add: area_step_def)
  next
    case lat: (Some lat)
    show ?thesis
    proof (cases "ls_lng location")
      case None
      then show ?thesis using lat by (intro skip) (simp add: area_step_def)
    next
      case lng: (Some lng)
      show ?thesis
      proof (cases "truthy lat \<and> truthy lng")
        case False
        then show ?thesis using lat lng by (intro skip) (auto simp: area_step_def)
      next
        case True
        obtain st' pc rc f' where
          c: "count_properties out pf propertyType location lat lng (st, featured)
              = (st', pc, rc, f')"
          by (cases "count_properties out pf propertyType location lat lng (st, featured)")
        have "fst (area_step out pf args_location propertyType location (st, areas, featured)) = st'"
          using True lat lng c by (simp add: area_step_def)
        then show ?thesis
          using count_properties_sent [of out pf propertyType location lat lng st featured] c
          by simp
      qed
    qed
  qed
qed

lemma area_loop_sent:
  "\<exists>new. sent (fst (area_loop out pf args_location propertyType locations (st, areas, featured)))
          = sent st @ new
       \<and> set (coordinate_searches new)
           \<subseteq> (if wants_sale propertyType then {ForSale} else {})
             \<union> (if wants_rent propertyType then {ForRent} else {})"
proof (induction locations arbitrary: st areas featured)
  case Nil
  then show ?case by simp
next
  case (Cons location locations)
  obtain st1 areas1 featured1 where
    s: "area_step out pf args_location propertyType location (st, areas, featured)
        = (st1, areas1, featured1)"
    by (cases "area_step out pf args_location propertyType location (st, areas, featured)")
  obtain new1 where n1: "sent st1 = sent st @ new1"
    "set (coordinate_searches new1)
       \<subseteq> (if wants_sale propertyType then {ForSale} else {})
         \<union> (if wants_rent propertyType then {ForRent} else {})"
    using area_step_sent [of out pf args_location propertyType location st areas featured] s
    by auto
  obtain new2 where n2:
    "sent (fst (area_loop out pf args_location propertyType locations (st1, areas1, featured1)))
       = sent st1 @ new2"
    "set (coordinate_searches new2)
       \<subseteq> (if wants_sale propertyType then {ForSale} else {})
         \<union> (if wants_rent propertyType then {ForRent} else {})"
    using Cons.IH [of st1 areas1 featured1] by blast
  show ?case
    using n1 n2 s by (intro exI [of _ "new1 @ new2"]) auto
qed

lemma searchLocationSuggestions_sent:
  "sent (snd (searchLocationSuggestions out location st)) = sent st @ [LocationSuggestions location]"
  by (simp add: searchLocationSuggestions_def Let_def split: prod.splits)

lemma area_lookup_sent:
  "\<exists>new. sent (snd (zillow_city_neighborhood_real_estate_information zillowApi pf args st))
          = sent st @ new
       \<and> set (coordinate_searches new)
           \<subseteq> (if wants_sale (aa_propertyType args) then {ForSale} else {})
             \<union> (if wants_rent (aa_propertyType args) then {ForRent} else {})"
proof (cases "aa_location args")
  case None
  then show ?thesis
    by (simp add: zillow_city_neighborhood_real_estate_information_def)
next
  case l: (Some location)
  show ?thesis
  proof (cases zillowApi)
    case None
    then show ?thesis
      using l by (simp add: zillow_city_neighborhood_real_estate_information_def)
  next
    case (Some out)
    obtain reply st1 where r: "searchLocationSuggestions out location st = (reply, st1)"
      by (cases "searchLocationSuggestions out location st")
    have s1: "sent st1 = sent st @ [LocationSuggestions location]"
      using searchLocationSuggestions_sent [of out location st] by (simp add: r)
    have direct: ?thesis
      if "snd (zillow_city_neighborhood_real_estate_information zillowApi pf args st) = st1"
      using that s1 by (intro exI [of _ "[LocationSuggestions location]"]) simp
    show ?thesis
    proof (cases reply)
      case (Inl message)
      then show ?thesis
        using l Some r
        by (intro direct) (simp add: zillow_city_neighborhood_real_estate_information_def)
    next
      case (Inr results)
      show ?thesis
      proof (cases results)
        case None
        then show ?thesis
          using l Some r Inr
          by (intro direct)
             (simp add: zillow_city_neighborhood_real_estate_information_def Let_def)
      next
        case locs: (Some locations)
        let ?loop = "area_loop out pf location (aa_propertyType args) (take 5 locations)
                       (st1, [], [])"
        obtain st2 areas featured where lp: "?loop = (st2, areas, featured)"
          by (cases ?loop)
        have e: "snd (zillow_city_neighborhood_real_estate_information zillowApi pf args st) = st2"
          using l Some r Inr locs lp
          by (simp add: zillow_city_neighborhood_real_estate_information_def Let_def)
        obtain new where n: "sent st2 = sent st1 @ new"
          "set (coordinate_searches new)
             \<subseteq> (if wants_sale (aa_propertyType args) then {ForSale} else {})
               \<union> (if wants_rent (aa_propertyType args) then {ForRent} else {})"
          using area_loop_sent [of out pf location "aa_propertyType args" "take 5 locations" st1 "[]" "[]"]
            lp by auto
        show ?thesis
          using e n s1 by (intro exI [of _ "[LocationSuggestions location] @ new"]) simp
      qed
    qed
  qed
qed

lemma sample_rent_run:
  "coordinate_searches
     (sent (snd (zillow_city_neighborhood_real_estate_information (Some sample_outside) pf0
                   (austin (Some IntentForRent)) start)))
   = [ForRent, ForRent]"
  by (simp add: zillow_city_neighborhood_real_estate_information_def austin_def start_def
      sample_outside_def searchLocationSuggestions_def austin_suggestions_def area_step_def
      count_properties_def count_rentals_def wants_sale_def wants_rent_def
      searchPropertiesByCoordinates_def coordinate_apiParams_def num_or_def keep_num_def
      num_truthy_def Let_def)

lemma sample_sale_run:
  "coordinate_searches
     (sent (snd (zillow_city_neighborhood_real_estate_information (Some sample_outside) pf0
                   (austin (Some IntentForSale)) start)))
   = [ForSale, ForSale]"
  by (simp add: zillow_city_neighborhood_real_estate_information_def austin_def start_def
      sample_outside_def searchLocationSuggestions_def austin_suggestions_def area_step_def
      count_properties_def count_rentals_def wants_sale_def wants_rent_def
      searchPropertiesByCoordinates_def coordinate_apiParams_def num_or_def keep_num_def
      num_truthy_def sample_props_def featured_id_def sample_prop_def Let_def)

section \<open>The prices of the featured properties\<close>

lemma num_or_idem [simp]: "num_or (Some (num_or x (Num 0))) (Num 0) = num_or x (Num 0)"
  by (simp add: num_or_def split: option.splits)








section \<open>Falsy arguments\<close>

lemma num_or_zero [simp]: "num_or (Some (Num 0)) d = d"
  by (simp add: num_or_def)

lemma num_or_None [simp]: "num_or None d = d"
  by (simp add: num_or_def)

lemma keep_num_zero [simp]: "keep_num (Some (Num 0)) = None"
  by (simp add: keep_num_def num_truthy_def)

lemma keep_num_None [simp]: "keep_num None = None"
  by (simp add: keep_num_def num_truthy_def)

text \<open>What the affordability handler and the search client do with a 0, field by field.\<close>

lemma calculateHomeAffordability_live:
  "\<exists>response content.
     fst (calculateHomeAffordability (Some out) pf args st) = Inr response
     \<and> tr_structured response = Some (Affordability content)
     \<and> fc_result content = calculateAffordability (pf_toFixed pf) (affordability_input args)"
  by (simp add: calculateHomeAffordability_def Let_def split: prod.splits)

lemma input_zero_annualIncome:
  "affordability_input (args\<lparr>ha_annualIncome := Some (Num 0)\<rparr>)
     = \<lparr> ap_annualIncome = Num 75000,
         ap_downPayment = num_or (ha_downPayment args) (Num 50000),
         ap_creditScore = num_or (ha_creditScore args) (Num 720),
         ap_monthlyDebts = num_or (ha_monthlyDebts args) (Num 500),
         ap_interestRate = None \<rparr>"
  by (simp add: affordability_input_def)

lemma input_zero_downPayment:
  "affordability_input (args\<lparr>ha_downPayment := Some (Num 0)\<rparr>)
     = \<lparr> ap_annualIncome = num_or (ha_annualIncome args) (Num 75000),
         ap_downPayment = Num 50000,
         ap_creditScore = num_or (ha_creditScore args) (Num 720),
         ap_monthlyDebts = num_or (ha_monthlyDebts args) (Num 500),
         ap_interestRate = None \<rparr>"
  by (simp add: affordability_input_def)

lemma input_zero_creditScore:
  "affordability_input (args\<lparr>ha_creditScore := Some (Num 0)\<rparr>)
     = \<lparr> ap_annualIncome = num_or (ha_annualIncome args) (Num 75000),
         ap_downPayment = num_or (ha_downPayment args) (Num 50000),
         ap_creditScore = Num 720,
         ap_monthlyDebts = num_or (ha_monthlyDebts args) (Num 500),
         ap_interestRate = None \<rparr>"
  by (simp add: affordability_input_def)

lemma input_zero_monthlyDebts:
  "affordability_input (args\<lparr>ha_monthlyDebts := Some (Num 0)\<rparr>)
     = \<lparr> ap_annualIncome = num_or (ha_annualIncome args) (Num 75000),
         ap_downPayment = num_or (ha_downPayment args) (Num 50000),
         ap_creditScore = num_or (ha_creditScore args) (Num 720),
         ap_monthlyDebts = Num 500,
         ap_interestRate = None \<rparr>"
  by (simp add: affordability_input_def)

lemma live_zero_annualIncome:
  "(\<exists>response content.
        fst (calculateHomeAffordability (Some out) pf (args\<lparr>ha_annualIncome := Some (Num 0)\<rparr>) st) = Inr response
      \<and> tr_structured response = Some (Affordability content)
      \<and> fc_result content
          = calculateAffordability (pf_toFixed pf)
              \<lparr> ap_annualIncome = Num 75000,
                ap_downPayment = num_or (ha_downPayment args) (Num 50000),
                ap_creditScore = num_or (ha_creditScore args) (Num 720),
                ap_monthlyDebts = num_or (ha_monthlyDebts args) (Num 500),
                ap_interestRate = None \<rparr>)"
  using calculateHomeAffordability_live [of out pf "args\<lparr>ha_annualIncome := Some (Num 0)\<rparr>" st]
  by (simp only: input_zero_annualIncome)

lemma live_zero_downPayment:
  "(\<exists>response content.
        fst (calculateHomeAffordability (Some out) pf (args\<lparr>ha_downPayment := Some (Num 0)\<rparr>) st) = Inr response
      \<and> tr_structured response = Some (Affordability content)
      \<and> fc_result content
          = calculateAffordability (pf_toFixed pf)
              \<lparr> ap_annualIncome = num_or (ha_annualIncome args) (Num 75000),
                ap_downPayment = Num 50000,
                ap_creditScore = num_or (ha_creditScore args) (Num 720),
                ap_monthlyDebts = num_or (ha_monthlyDebts args) (Num 500),
                ap_interestRate = None \<rparr>)"
  using calculateHomeAffordability_live [of out pf "args\<lparr>ha_downPayment := Some (Num 0)\<rparr>" st]
  by (simp only: input_zero_downPayment)

lemma live_zero_creditScore:
  "(\<exists>response content.
        fst (calculateHomeAffordability (Some out) pf (args\<lparr>ha_creditScore := Some (Num 0)\<rparr>) st) = Inr response
      \<and> tr_structured response = Some (Affordability content)
      \<and> fc_result content
          = calculateAffordability (pf_toFixed pf)
              \<lparr> ap_annualIncome = num_or (ha_annualIncome args) (Num 75000),
                ap_downPayment = num_or (ha_downPayment args) (Num 50000),
                ap_creditScore = Num 720,
                ap_monthlyDebts = num_or (ha_monthlyDebts args) (Num 500),
                ap_interestRate = None \<rparr>)"
  using calculateHomeAffordability_live [of out pf "args\<lparr>ha_creditScore := Some (Num 0)\<rparr>" st]
  by (simp only: input_zero_creditScore)

lemma live_zero_monthlyDebts:
  "(\<exists>response content.
        fst (calculateHomeAffordability (Some out) pf (args\<lparr>ha_monthlyDebts := Some (Num 0)\<rparr>) st) = Inr response
      \<and> tr_structured response = Some (Affordability content)
      \<and> fc_result content
          = calculateAffordability (pf_toFixed pf)
              \<lparr> ap_annualIncome = num_or (ha_annualIncome args) (Num 75000),
                ap_downPayment = num_or (ha_downPayment args) (Num 50000),
                ap_creditScore = num_or (ha_creditScore args) (Num 720),
                ap_monthlyDebts = Num 500,
                ap_interestRate = None \<rparr>)"
  using calculateHomeAffordability_live [of out pf "args\<lparr>ha_monthlyDebts := Some (Num 0)\<rparr>" st]
  by (simp only: input_zero_monthlyDebts)

lemma demo_zero_annualIncome:
  "(\<exists>response content.
        fst (calculateHomeAffordability None pf (args\<lparr>ha_annualIncome := Some (Num 0)\<rparr>) st) = Inr response
      \<and> tr_structured response = Some (DemoAffordability content)
      \<and> dc_annualIncome content = Num 75000)"
  by (simp add: calculateHomeAffordability_def Let_def)

lemma demo_zero_downPayment:
  "(\<exists>response content.
        fst (calculateHomeAffordability None pf (args\<lparr>ha_downPayment := Some (Num 0)\<rparr>) st) = Inr response
      \<and> tr_structured response = Some (DemoAffordability content)
      \<and> dc_downPayment content = Num 50000)"
  by (simp add: calculateHomeAffordability_def Let_def)

lemma demo_zero_creditScore:
  "(\<exists>response content.
        fst (calculateHomeAffordability None pf (args\<lparr>ha_creditScore := Some (Num 0)\<rparr>) st) = Inr response
      \<and> tr_structured response = Some (DemoAffordability content)
      \<and> dc_creditScore content = Num 720)"
  by (simp add: calculateHomeAffordability_def Let_def)

lemma demo_zero_monthlyDebts:
  "(\<exists>response content.
        fst (calculateHomeAffordability None pf (args\<lparr>ha_monthlyDebts := Some (Num 0)\<rparr>) st) = Inr response
      \<and> tr_structured response = Some (DemoAffordability content)
      \<and> dc_monthlyDebts content = Num 500)"
  by (simp add: calculateHomeAffordability_def Let_def)

lemma handler_zero_annualIncome:
  "calculateHomeAffordability zillowApi pf (args\<lparr>ha_annualIncome := Some (Num 0)\<rparr>) st
     = calculateHomeAffordability zillowApi pf (args\<lparr>ha_annualIncome := None\<rparr>) st"
  by (simp add: affordability_input_def calculateHomeAffordability_def
      cong: option.case_cong prod.case_cong)

lemma handler_zero_downPayment:
  "calculateHomeAffordability zillowApi pf (args\<lparr>ha_downPayment := Some (Num 0)\<rparr>) st
     = calculateHomeAffordability zillowApi pf (args\<lparr>ha_downPayment := None\<rparr>) st"
  by (simp add: affordability_input_def calculateHomeAffordability_def
      cong: option.case_cong prod.case_cong)

lemma handler_zero_creditScore:
  "calculateHomeAffordability zillowApi pf (args\<lparr>ha_creditScore := Some (Num 0)\<rparr>) st
     = calculateHomeAffordability zillowApi pf (args\<lparr>ha_creditScore := None\<rparr>) st"
  by (simp add: affordability_input_def calculateHomeAffordability_def
      cong: option.case_cong prod.case_cong)

lemma handler_zero_monthlyDebts:
  "calculateHomeAffordability zillowApi pf (args\<lparr>ha_monthlyDebts := Some (Num 0)\<rparr>) st
     = calculateHomeAffordability zillowApi pf (args\<lparr>ha_monthlyDebts := None\<rparr>) st"
  by (simp add: affordability_input_def calculateHomeAffordability_def
      cong: option.case_cong prod.case_cong)

lemma query_zero_minPrice:
  "search_apiParams (params\<lparr>psp_minPrice := Some (Num 0)\<rparr>)
     = (search_apiParams params)\<lparr>sq_minPrice := None\<rparr>"
  by (simp add: search_apiParams_def)

lemma query_zero_maxPrice:
  "search_apiParams (params\<lparr>psp_maxPrice := Some (Num 0)\<rparr>)
     = (search_apiParams params)\<lparr>sq_maxPrice := None\<rparr>"
  by (simp add: search_apiParams_def)

lemma query_zero_bedsMin:
  "search_apiParams (params\<lparr>psp_bedsMin := Some (Num 0)\<rparr>)
     = (search_apiParams params)\<lparr>sq_bedsMin := None\<rparr>"
  by (simp add: search_apiParams_def)

lemma query_zero_bathsMin:
  "search_apiParams (params\<lparr>psp_bathsMin := Some (Num 0)\<rparr>)
     = (search_apiParams params)\<lparr>sq_bathsMin := None\<rparr>"
  by (simp add: search_apiParams_def)

lemma query_zero_sqftMin:
  "search_apiParams (params\<lparr>psp_sqftMin := Some (Num 0)\<rparr>)
     = (search_apiParams params)\<lparr>sq_sqftMin := None\<rparr>"
  by (simp add: search_apiParams_def)

lemma query_zero_sqftMax:
  "search_apiParams (params\<lparr>psp_sqftMax := Some (Num 0)\<rparr>)
     = (search_apiParams params)\<lparr>sq_sqftMax := None\<rparr>"
  by (simp add: search_apiParams_def)

lemma sent_zero_minPrice:
  "sent (snd (searchProperties out (params\<lparr>psp_minPrice := Some (Num 0)\<rparr>) st))
     = sent st @ [PropertyExtendedSearch ((search_apiParams params)\<lparr>sq_minPrice := None\<rparr>)]"
  by (simp add: searchProperties_def search_apiParams_def Let_def split: prod.splits)

lemma sent_zero_maxPrice:
  "sent (snd (searchProperties out (params\<lparr>psp_maxPrice := Some (Num 0)\<rparr>) st))
     = sent st @ [PropertyExtendedSearch ((search_apiParams params)\<lparr>sq_maxPrice := None\<rparr>)]"
  by (simp add: searchProperties_def search_apiParams_def Let_def split: prod.splits)

lemma sent_zero_bedsMin:
  "sent (snd (searchProperties out (params\<lparr>psp_bedsMin := Some (Num 0)\<rparr>) st))
     = sent st @ [PropertyExtendedSearch ((search_apiParams params)\<lparr>sq_bedsMin := None\<rparr>)]"
  by (simp add: searchProperties_def search_apiParams_def Let_def split: prod.splits)

lemma sent_zero_bathsMin:
  "sent (snd (searchProperties out (params\<lparr>psp_bathsMin := Some (Num 0)\<rparr>) st))
     = sent st @ [PropertyExtendedSearch ((search_apiParams params)\<lparr>sq_bathsMin := None\<rparr>)]"
  by (simp add: searchProperties_def search_apiParams_def Let_def split: prod.splits)

lemma sent_zero_sqftMin:
  "sent (snd (searchProperties out (params\<lparr>psp_sqftMin := Some (Num 0)\<rparr>) st))
     = sent st @ [PropertyExtendedSearch ((search_apiParams params)\<lparr>sq_sqftMin := None\<rparr>)]"
  by (simp add: searchProperties_def search_apiParams_def Let_def split: prod.splits)

lemma sent_zero_sqftMax:
  "sent (snd (searchProperties out (params\<lparr>psp_sqftMax := Some (Num 0)\<rparr>) st))
     = sent st @ [PropertyExtendedSearch ((search_apiParams params)\<lparr>sq_sqftMax := None\<rparr>)]"
  by (simp add: searchProperties_def search_apiParams_def Let_def split: prod.splits)

lemma search_zero_minPrice:
  "searchProperties out (params\<lparr>psp_minPrice := Some (Num 0)\<rparr>) st
     = searchProperties out (params\<lparr>psp_minPrice := None\<rparr>) st"
  by (simp add: searchProperties_def search_apiParams_def)

lemma search_zero_maxPrice:
  "searchProperties out (params\<lparr>psp_maxPrice := Some (Num 0)\<rparr>) st
     = searchProperties out (params\<lparr>psp_maxPrice := None\<rparr>) st"
  by (simp add: searchProperties_def search_apiParams_def)

lemma search_zero_bedsMin:
  "searchProperties out (params\<lparr>psp_bedsMin := Some (Num 0)\<rparr>) st
     = searchProperties out (params\<lparr>psp_bedsMin := None\<rparr>) st"
  by (simp add: searchProperties_def search_apiParams_def)

lemma search_zero_bathsMin:
  "searchProperties out (params\<lparr>psp_bathsMin := Some (Num 0)\<rparr>) st
     = searchProperties out (params\<lparr>psp_bathsMin := None\<rparr>) st"
  by (simp add: searchProperties_def search_apiParams_def)

lemma search_zero_sqftMin:
  "searchProperties out (params\<lparr>psp_sqftMin := Some (Num 0)\<rparr>) st
     = searchProperties out (params\<lparr>psp_sqftMin := None\<rparr>) st"
  by (simp add: searchProperties_def search_apiParams_def)

lemma search_zero_sqftMax:
  "searchProperties out (params\<lparr>psp_sqftMax := Some (Num 0)\<rparr>) st
     = searchProperties out (params\<lparr>psp_sqftMax := None\<rparr>) st"
  by (simp add: searchProperties_def search_apiParams_def)

lemma input_all_zero:
  "affordability_input
     \<lparr> ha_annualIncome = Some (Num 0), ha_downPayment = Some (Num 0),
       ha_creditScore = Some (Num 0), ha_monthlyDebts = Some (Num 0), ha_location = l \<rparr>
   = \<lparr> ap_annualIncome = Num 75000, ap_downPayment = Num 50000, ap_creditScore = Num 720,
       ap_monthlyDebts = Num 500, ap_interestRate = None \<rparr>"
  by (simp add: affordability_input_def)

lemma query_all_zero:
  "search_apiParams
     (params\<lparr>psp_minPrice := Some (Num 0), psp_maxPrice := Some (Num 0),
             psp_bedsMin := Some (Num 0), psp_bathsMin := Some (Num 0),
             psp_sqftMin := Some (Num 0), psp_sqftMax := Some (Num 0)\<rparr>)
   = (search_apiParams params)
       \<lparr>sq_minPrice := None, sq_maxPrice := None, sq_bedsMin := None, sq_bathsMin := None,
        sq_sqftMin := None, sq_sqftMax := None\<rparr>"
  by (simp add: search_apiParams_def)

section \<open>Claims about the dispatcher\<close>

text \<open>
  C4, as amended. For a property search with a location: when the provider is unconfigured,
  the handler sends no request and returns the two-item fallback list with
  \<open>usingMockData\<close> set; when the provider is configured and its call fails, the handler's
  \<^verbatim>\<open>catch\<close> returns an error-flagged response that carries the provider's message and no
  structured payload. In neither case is anything thrown past the dispatcher.
\<close>

theorem property_search_fallback:
  assumes "sa_location args = Some location"
  shows "(\<exists>response content.
            zillow_property_search None pf args st = (Inr response, st)
          \<and> \<not> tr_isError response
          \<and> tr_structured response = Some (Search content)
          \<and> sc_properties content = mockProperties location args
          \<and> length (sc_properties content) = 2
          \<and> sc_usingMockData content)
       \<and> (out_propertyExtendedSearch out (search_apiParams (searchParams location args)) (world st)
            = (Inl message, w) \<longrightarrow>
          zillow_property_search (Some out) pf args st
            = (Inr \<lparr> tr_text = ''Error searching properties in '' @ location @ '': '' @ message,
                     tr_structured = None, tr_meta = None, tr_isError = True \<rparr>,
               \<lparr> world = w,
                 sent = sent st
                        @ [PropertyExtendedSearch (search_apiParams (searchParams location args))] \<rparr>))"
  using assms
  by (simp add: zillow_property_search_def mockProperties_def searchProperties_def
      error_response_def Let_def)

text \<open>The theorem at the search for three bedrooms in Seattle, with a provider that answers
  503.\<close>

theorem property_search_fallback_witness:
  "sa_location seattle_args = Some ''Seattle, WA''
   \<and> (\<exists>response content.
          zillow_property_search None pf0 seattle_args start = (Inr response, start)
        \<and> \<not> tr_isError response
        \<and> tr_structured response = Some (Search content)
        \<and> sc_properties content = mockProperties ''Seattle, WA'' seattle_args
        \<and> length (sc_properties content) = 2
        \<and> sc_usingMockData content)
   \<and> out_propertyExtendedSearch failing_outside
        (search_apiParams (searchParams ''Seattle, WA'' seattle_args)) (world start)
      = (Inl ''Zillow API error: 503 Service Unavailable'', ())
   \<and> zillow_property_search (Some failing_outside) pf0 seattle_args start
      = (Inr \<lparr> tr_text = ''Error searching properties in '' @ ''Seattle, WA'' @ '': ''
                         @ ''Zillow API error: 503 Service Unavailable'',
               tr_structured = None, tr_meta = None, tr_isError = True \<rparr>,
         \<lparr> world = (),
           sent = sent start
                  @ [PropertyExtendedSearch
                       (search_apiParams (searchParams ''Seattle, WA'' seattle_args))] \<rparr>)"
proof -
  have l: "sa_location seattle_args = Some ''Seattle, WA''"
    by (simp add: seattle_args_def)
  have f: "out_propertyExtendedSearch failing_outside
        (search_apiParams (searchParams ''Seattle, WA'' seattle_args)) (world start)
      = (Inl ''Zillow API error: 503 Service Unavailable'', ())"
    by (simp add: failing_outside_def)
  show ?thesis
    using l f property_search_fallback [OF l, of pf0 start failing_outside
        "''Zillow API error: 503 Service Unavailable''" "()"]
    by blast
qed

text \<open>C4 as stated fails for a failing provider: the response to the Seattle search is the
  error response, with no property list and no \<open>usingMockData\<close> flag.\<close>

theorem property_search_provider_failure_counterexample:
  "fst (zillow_property_search (Some failing_outside) pf0 seattle_args start)
   = Inr \<lparr> tr_text =
             ''Error searching properties in Seattle, WA: Zillow API error: 503 Service Unavailable'',
           tr_structured = None, tr_meta = None, tr_isError = True \<rparr>"
  by (simp add: zillow_property_search_def seattle_args_def failing_outside_def start_def
      searchProperties_def error_response_def Let_def)

text \<open>
  C7. Whatever the provider answers, an area lookup with the intent \<^verbatim>\<open>for-rent\<close> sends no
  coordinate search with \<^verbatim>\<open>status_type\<close> \<open>ForSale\<close>; and an area lookup with the intent
  \<^verbatim>\<open>for-sale\<close> sends none with \<open>ForRent\<close>. The requests are those the call adds to the
  ones sent before.
\<close>

theorem area_lookup_intent_exclusive:
  "(aa_propertyType args = Some IntentForRent \<longrightarrow>
      (\<exists>new. sent (snd (zillow_city_neighborhood_real_estate_information zillowApi pf args st))
               = sent st @ new
            \<and> ForSale \<notin> set (coordinate_searches new)))
   \<and> (aa_propertyType args = Some IntentForSale \<longrightarrow>
      (\<exists>new. sent (snd (zillow_city_neighborhood_real_estate_information zillowApi pf args st))
               = sent st @ new
            \<and> ForRent \<notin> set (coordinate_searches new)))"
  using area_lookup_sent [of zillowApi pf args st]
  by (auto simp: wants_sale_def wants_rent_def)

text \<open>The theorem at the lookup of Austin, where two areas are found: two coordinate
  searches, both of the requested kind.\<close>

theorem area_lookup_intent_exclusive_witness:
  "(aa_propertyType (austin (Some IntentForRent)) = Some IntentForRent
    \<and> (\<exists>new. sent (snd (zillow_city_neighborhood_real_estate_information (Some sample_outside)
                           pf0 (austin (Some IntentForRent)) start))
               = sent start @ new
            \<and> ForSale \<notin> set (coordinate_searches new))
    \<and> coordinate_searches
         (sent (snd (zillow_city_neighborhood_real_estate_information (Some sample_outside) pf0
                       (austin (Some IntentForRent)) start)))
       = [ForRent, ForRent])
   \<and> (aa_propertyType (austin (Some IntentForSale)) = Some IntentForSale
    \<and> (\<exists>new. sent (snd (zillow_city_neighborhood_real_estate_information (Some sample_outside)
                           pf0 (austin (Some IntentForSale)) start))
               = sent start @ new
            \<and> ForRent \<notin> set (coordinate_searches new))
    \<and> coordinate_searches
         (sent (snd (zillow_city_neighborhood_real_estate_information (Some sample_outside) pf0
                       (austin (Some IntentForSale)) start)))
       = [ForSale, ForSale])"
proof -
  have r: "aa_propertyType (austin (Some IntentForRent)) = Some IntentForRent"
    and s: "aa_propertyType (austin (Some IntentForSale)) = Some IntentForSale"
    by (simp_all add: austin_def)
  show ?thesis
    using r s sample_rent_run sample_sale_run
      area_lookup_intent_exclusive [of "austin (Some IntentForRent)" "Some sample_outside" pf0 start]
      area_lookup_intent_exclusive [of "austin (Some IntentForSale)" "Some sample_outside" pf0 start]
    by blast
qed



text \<open>
  C10. In \<^verbatim>\<open>calculateHomeAffordability\<close>, whatever the other arguments are, an argument of
  0 for the income, the down payment, the credit score or the monthly debts is replaced by
  the default 75000, 50000, 720 or 500: that value enters the object handed to the
  calculation, the result in the live response is the calculation on that object, the demo
  response shows the default, and the whole response, the requests and the state are those
  of the call with the argument absent. In \<^verbatim>\<open>searchProperties\<close>, whatever the other
  parameters are, a bound of 0 for the price, the bedrooms, the bathrooms or the square
  footage is not part of the query sent, and the reply and the state are those of the call
  with the bound absent.
\<close>

theorem zero_is_absent:
  "affordability_input (args\<lparr>ha_annualIncome := Some (Num 0)\<rparr>)
     = \<lparr> ap_annualIncome = Num 75000,
         ap_downPayment = num_or (ha_downPayment args) (Num 50000),
         ap_creditScore = num_or (ha_creditScore args) (Num 720),
         ap_monthlyDebts = num_or (ha_monthlyDebts args) (Num 500),
         ap_interestRate = None \<rparr>
   \<and> affordability_input (args\<lparr>ha_downPayment := Some (Num 0)\<rparr>)
     = \<lparr> ap_annualIncome = num_or (ha_annualIncome args) (Num 75000),
         ap_downPayment = Num 50000,
         ap_creditScore = num_or (ha_creditScore args) (Num 720),
         ap_monthlyDebts = num_or (ha_monthlyDebts args) (Num 500),
         ap_interestRate = None \<rparr>
   \<and> affordability_input (args\<lparr>ha_creditScore := Some (Num 0)\<rparr>)
     = \<lparr> ap_annualIncome = num_or (ha_annualIncome args) (Num 75000),
         ap_downPayment = num_or (ha_downPayment args) (Num 50000),
         ap_creditScore = Num 720,
         ap_monthlyDebts = num_or (ha_monthlyDebts args) (Num 500),
         ap_interestRate = None \<rparr>
   \<and> affordability_input (args\<lparr>ha_monthlyDebts := Some (Num 0)\<rparr>)
     = \<lparr> ap_annualIncome = num_or (ha_annualIncome args) (Num 75000),
         ap_downPayment = num_or (ha_downPayment args) (Num 50000),
         ap_creditScore = num_or (ha_creditScore args) (Num 720),
         ap_monthlyDebts = Num 500,
         ap_interestRate = None \<rparr>
   \<and> (\<exists>response content.
        fst (calculateHomeAffordability (Some out) pf (args\<lparr>ha_annualIncome := Some (Num 0)\<rparr>) st) = Inr response
      \<and> tr_structured response = Some (Affordability content)
      \<and> fc_result content
          = calculateAffordability (pf_toFixed pf)
              \<lparr> ap_annualIncome = Num 75000,
                ap_downPayment = num_or (ha_downPayment args) (Num 50000),
                ap_creditScore = num_or (ha_creditScore args) (Num 720),
                ap_monthlyDebts = num_or (ha_monthlyDebts args) (Num 500),
                ap_interestRate = None \<rparr>)
   \<and> (\<exists>response content.
        fst (calculateHomeAffordability (Some out) pf (args\<lparr>ha_downPayment := Some (Num 0)\<rparr>) st) = Inr response
      \<and> tr_structured response = Some (Affordability content)
      \<and> fc_result content
          = calculateAffordability (pf_toFixed pf)
              \<lparr> ap_annualIncome = num_or (ha_annualIncome args) (Num 75000),
                ap_downPayment = Num 50000,
                ap_creditScore = num_or (ha_creditScore args) (Num 720),
                ap_monthlyDebts = num_or (ha_monthlyDebts args) (Num 500),
                ap_interestRate = None \<rparr>)
   \<and> (\<exists>response content.
        fst (calculateHomeAffordability (Some out) pf (args\<lparr>ha_creditScore := Some (Num 0)\<rparr>) st) = Inr response
      \<and> tr_structured response = Some (Affordability content)
      \<and> fc_result content
          = calculateAffordability (pf_toFixed pf)
              \<lparr> ap_annualIncome = num_or (ha_annualIncome args) (Num 75000),
                ap_downPayment = num_or (ha_downPayment args) (Num 50000),
                ap_creditScore = Num 720,
                ap_monthlyDebts = num_or (ha_monthlyDebts args) (Num 500),
                ap_interestRate = None \<rparr>)
   \<and> (\<exists>response content.
        fst (calculateHomeAffordability (Some out) pf (args\<lparr>ha_monthlyDebts := Some (Num 0)\<rparr>) st) = Inr response
      \<and> tr_structured response = Some (Affordability content)
      \<and> fc_result content
          = calculateAffordability (pf_toFixed pf)
              \<lparr> ap_annualIncome = num_or (ha_annualIncome args) (Num 75000),
                ap_downPayment = num_or (ha_downPayment args) (Num 50000),
                ap_creditScore = num_or (ha_creditScore args) (Num 720),
                ap_monthlyDebts = Num 500,
                ap_interestRate = None \<rparr>)
   \<and> (\<exists>response content.
        fst (calculateHomeAffordability None pf (args\<lparr>ha_annualIncome := Some (Num 0)\<rparr>) st) = Inr response
      \<and> tr_structured response = Some (DemoAffordability content)
      \<and> dc_annualIncome content = Num 75000)
   \<and> (\<exists>response content.
        fst (calculateHomeAffordability None pf (args\<lparr>ha_downPayment := Some (Num 0)\<rparr>) st) = Inr response
      \<and> tr_structured response = Some (DemoAffordability content)
      \<and> dc_downPayment content = Num 50000)
   \<and> (\<exists>response content.
        fst (calculateHomeAffordability None pf (args\<lparr>ha_creditScore := Some (Num 0)\<rparr>) st) = Inr response
      \<and> tr_structured response = Some (DemoAffordability content)
      \<and> dc_creditScore content = Num 720)
   \<and> (\<exists>response content.
        fst (calculateHomeAffordability None pf (args\<lparr>ha_monthlyDebts := Some (Num 0)\<rparr>) st) = Inr response
      \<and> tr_structured response = Some (DemoAffordability content)
      \<and> dc_monthlyDebts content = Num 500)
   \<and> calculateHomeAffordability zillowApi pf (args\<lparr>ha_annualIncome := Some (Num 0)\<rparr>) st
     = calculateHomeAffordability zillowApi pf (args\<lparr>ha_annualIncome := None\<rparr>) st
   \<and> calculateHomeAffordability zillowApi pf (args\<lparr>ha_downPayment := Some (Num 0)\<rparr>) st
     = calculateHomeAffordability zillowApi pf (args\<lparr>ha_downPayment := None\<rparr>) st
   \<and> calculateHomeAffordability zillowApi pf (args\<lparr>ha_creditScore := Some (Num 0)\<rparr>) st
     = calculateHomeAffordability zillowApi pf (args\<lparr>ha_creditScore := None\<rparr>) st
   \<and> calculateHomeAffordability zillowApi pf (args\<lparr>ha_monthlyDebts := Some (Num 0)\<rparr>) st
     = calculateHomeAffordability zillowApi pf (args\<lparr>ha_monthlyDebts := None\<rparr>) st
   \<and> search_apiParams (params\<lparr>psp_minPrice := Some (Num 0)\<rparr>)
     = (search_apiParams params)\<lparr>sq_minPrice := None\<rparr>
   \<and> search_apiParams (params\<lparr>psp_maxPrice := Some (Num 0)\<rparr>)
     = (search_apiParams params)\<lparr>sq_maxPrice := None\<rparr>
   \<and> search_apiParams (params\<lparr>psp_bedsMin := Some (Num 0)\<rparr>)
     = (search_apiParams params)\<lparr>sq_bedsMin := None\<rparr>
   \<and> search_apiParams (params\<lparr>psp_bathsMin := Some (Num 0)\<rparr>)
     = (search_apiParams params)\<lparr>sq_bathsMin := None\<rparr>
   \<and> search_apiParams (params\<lparr>psp_sqftMin := Some (Num 0)\<rparr>)
     = (search_apiParams params)\<lparr>sq_sqftMin := None\<rparr>
   \<and> search_apiParams (params\<lparr>psp_sqftMax := Some (Num 0)\<rparr>)
     = (search_apiParams params)\<lparr>sq_sqftMax := None\<rparr>
   \<and> sent (snd (searchProperties out (params\<lparr>psp_minPrice := Some (Num 0)\<rparr>) st))
     = sent st @ [PropertyExtendedSearch ((search_apiParams params)\<lparr>sq_minPrice := None\<rparr>)]
   \<and> sent (snd (searchProperties out (params\<lparr>psp_maxPrice := Some (Num 0)\<rparr>) st))
     = sent st @ [PropertyExtendedSearch ((search_apiParams params)\<lparr>sq_maxPrice := None\<rparr>)]
   \<and> sent (snd (searchProperties out (params\<lparr>psp_bedsMin := Some (Num 0)\<rparr>) st))
     = sent st @ [PropertyExtendedSearch ((search_apiParams params)\<lparr>sq_bedsMin := None\<rparr>)]
   \<and> sent (snd (searchProperties out (params\<lparr>psp_bathsMin := Some (Num 0)\<rparr>) st))
     = sent st @ [PropertyExtendedSearch ((search_apiParams params)\<lparr>sq_bathsMin := None\<rparr>)]
   \<and> sent (snd (searchProperties out (params\<lparr>psp_sqftMin := Some (Num 0)\<rparr>) st))
     = sent st @ [PropertyExtendedSearch ((search_apiParams params)\<lparr>sq_sqftMin := None\<rparr>)]
   \<and> sent (snd (searchProperties out (params\<lparr>psp_sqftMax := Some (Num 0)\<rparr>) st))
     = sent st @ [PropertyExtendedSearch ((search_apiParams params)\<lparr>sq_sqftMax := None\<rparr>)]
   \<and> searchProperties out (params\<lparr>psp_minPrice := Some (Num 0)\<rparr>) st
     = searchProperties out (params\<lparr>psp_minPrice := None\<rparr>) st
   \<and> searchProperties out (params\<lparr>psp_maxPrice := Some (Num 0)\<rparr>) st
     = searchProperties out (params\<lparr>psp_maxPrice := None\<rparr>) st
   \<and> searchProperties out (params\<lparr>psp_bedsMin := Some (Num 0)\<rparr>) st
     = searchProperties out (params\<lparr>psp_bedsMin := None\<rparr>) st
   \<and> searchProperties out (params\<lparr>psp_bathsMin := Some (Num 0)\<rparr>) st
     = searchProperties out (params\<lparr>psp_bathsMin := None\<rparr>) st
   \<and> searchProperties out (params\<lparr>psp_sqftMin := Some (Num 0)\<rparr>) st
     = searchProperties out (params\<lparr>psp_sqftMin := None\<rparr>) st
   \<and> searchProperties out (params\<lparr>psp_sqftMax := Some (Num 0)\<rparr>) st
     = searchProperties out (params\<lparr>psp_sqftMax := None\<rparr>) st
   \<and> affordability_input
       \<lparr> ha_annualIncome = Some (Num 0), ha_downPayment = Some (Num 0),
         ha_creditScore = Some (Num 0), ha_monthlyDebts = Some (Num 0), ha_location = l \<rparr>
     = \<lparr> ap_annualIncome = Num 75000, ap_downPayment = Num 50000, ap_creditScore = Num 720,
         ap_monthlyDebts = Num 500, ap_interestRate = None \<rparr>
   \<and> search_apiParams
       (params\<lparr>psp_minPrice := Some (Num 0), psp_maxPrice := Some (Num 0),
               psp_bedsMin := Some (Num 0), psp_bathsMin := Some (Num 0),
               psp_sqftMin := Some (Num 0), psp_sqftMax := Some (Num 0)\<rparr>)
     = (search_apiParams params)
         \<lparr>sq_minPrice := None, sq_maxPrice := None, sq_bedsMin := None, sq_bathsMin := None,
          sq_sqftMin := None, sq_sqftMax := None\<rparr>"
  by (intro conjI)
     (rule input_zero_annualIncome
        input_zero_downPayment
        input_zero_creditScore
        input_zero_monthlyDebts
        live_zero_annualIncome
        live_zero_downPayment
        live_zero_creditScore
        live_zero_monthlyDebts
        demo_zero_annualIncome
        demo_zero_downPayment
        demo_zero_creditScore
        demo_zero_monthlyDebts
        handler_zero_annualIncome
        handler_zero_downPayment
        handler_zero_creditScore
        handler_zero_monthlyDebts
        query_zero_minPrice
        query_zero_maxPrice
        query_zero_bedsMin
        query_zero_bathsMin
        query_zero_sqftMin
        query_zero_sqftMax
        sent_zero_minPrice
        sent_zero_maxPrice
        sent_zero_bedsMin
        sent_zero_bathsMin
        sent_zero_sqftMin
        sent_zero_sqftMax
        search_zero_minPrice
        search_zero_maxPrice
        search_zero_bedsMin
        search_zero_bathsMin
        search_zero_sqftMin
        search_zero_sqftMax
        input_all_zero
        query_all_zero)+

end
